theory Spec2Isabelle
  imports Complex_Main
begin

section \<open>Python strings\<close>

text \<open>
  A Python \<^verbatim>\<open>str\<close> is a sequence of Unicode code points; it is modelled as a list of
  natural numbers, one per code point, so that \<^verbatim>\<open>len\<close>, slicing and \<^verbatim>\<open>find\<close> count
  what Python counts. Field names of the request (plain ASCII identifiers) are kept as
  HOL strings.
\<close>

type_synonym ustr = "nat list"

text \<open>\<^verbatim>\<open>text.find(keyword)\<close>: the lowest index at which the keyword starts, \<open>None\<close> for -1.\<close>

fun py_find :: "ustr \<Rightarrow> ustr \<Rightarrow> nat option" where
  "py_find kw [] = (if kw = [] then Some 0 else None)"
| "py_find kw (x # xs) =
     (if take (length kw) (x # xs) = kw then Some 0
      else map_option Suc (py_find kw xs))"

text \<open>\<^verbatim>\<open>keyword in text\<close> on strings.\<close>

definition py_in :: "ustr \<Rightarrow> ustr \<Rightarrow> bool" where
  "py_in kw t = (py_find kw t \<noteq> None)"


text \<open>\<^verbatim>\<open>text[a:b]\<close> for non-negative bounds; Python clamps both to the length.\<close>

definition py_slice :: "ustr \<Rightarrow> nat \<Rightarrow> nat \<Rightarrow> ustr" where
  "py_slice t a b = take (b - a) (drop a t)"

text \<open>
  Case mapping follows \<^verbatim>\<open>str.lower()\<close> and \<^verbatim>\<open>str.upper()\<close> of CPython 3.11 (Unicode
  14.0.0) on every code point. Most code points with a different lower or upper case
  lie in runs that share one shift; a run is written (lo, hi, step, shift): the
  code points lo, lo + step, ..., hi each map to themselves plus the shift.
  ASCII and the Cyrillic block U+0400..U+04FF (the alphabets of the texts this service
  reads) are written out as conditions; the tables hold the other scripts.
\<close>

definition case_shift :: "(nat \<times> nat \<times> nat \<times> int) list \<Rightarrow> nat \<Rightarrow> nat" where
  "case_shift runs c =
     (case find (\<lambda>(lo, hi, step, shift). lo \<le> c \<and> c \<le> hi \<and> (c - lo) mod step = 0) runs of
        None \<Rightarrow> c
      | Some (lo, hi, step, shift) \<Rightarrow> nat (int c + shift))"

definition lower_runs :: "(nat \<times> nat \<times> nat \<times> int) list" where
  "lower_runs =
    [(192, 214, 1, 32), (216, 222, 1, 32), (256, 302, 2, 1), (306, 310, 2, 1),
     (313, 327, 2, 1), (330, 374, 2, 1), (376, 376, 1, - 121), (377, 381, 2, 1),
     (385, 385, 1, 210), (386, 388, 2, 1), (390, 390, 1, 206), (391, 391, 1, 1),
     (393, 394, 1, 205), (395, 395, 1, 1), (398, 398, 1, 79), (399, 399, 1, 202),
     (400, 400, 1, 203), (401, 401, 1, 1), (403, 403, 1, 205), (404, 404, 1, 207),
     (406, 406, 1, 211), (407, 407, 1, 209), (408, 408, 1, 1), (412, 412, 1, 211),
     (413, 413, 1, 213), (415, 415, 1, 214), (416, 420, 2, 1), (422, 422, 1, 218),
     (423, 423, 1, 1), (425, 425, 1, 218), (428, 428, 1, 1), (430, 430, 1, 218),
     (431, 431, 1, 1), (433, 434, 1, 217), (435, 437, 2, 1), (439, 439, 1, 219),
     (440, 440, 1, 1), (444, 444, 1, 1), (452, 452, 1, 2), (453, 453, 1, 1), (455, 455, 1, 2),
     (456, 456, 1, 1), (458, 458, 1, 2), (459, 475, 2, 1), (478, 494, 2, 1), (497, 497, 1, 2),
     (498, 500, 2, 1), (502, 502, 1, - 97), (503, 503, 1, - 56), (504, 542, 2, 1),
     (544, 544, 1, - 130), (546, 562, 2, 1), (570, 570, 1, 10795), (571, 571, 1, 1),
     (573, 573, 1, - 163), (574, 574, 1, 10792), (577, 577, 1, 1), (579, 579, 1, - 195),
     (580, 580, 1, 69), (581, 581, 1, 71), (582, 590, 2, 1), (880, 882, 2, 1),
     (886, 886, 1, 1), (895, 895, 1, 116), (902, 902, 1, 38), (904, 906, 1, 37),
     (908, 908, 1, 64), (910, 911, 1, 63), (913, 929, 1, 32), (931, 939, 1, 32),
     (975, 975, 1, 8), (984, 1006, 2, 1), (1012, 1012, 1, - 60), (1015, 1015, 1, 1),
     (1017, 1017, 1, - 7), (1018, 1018, 1, 1), (1021, 1023, 1, - 130), (1280, 1326, 2, 1),
     (1329, 1366, 1, 48), (4256, 4293, 1, 7264), (4295, 4295, 1, 7264), (4301, 4301, 1, 7264),
     (5024, 5103, 1, 38864), (5104, 5109, 1, 8), (7312, 7354, 1, - 3008),
     (7357, 7359, 1, - 3008), (7680, 7828, 2, 1), (7838, 7838, 1, - 7615), (7840, 7934, 2, 1),
     (7944, 7951, 1, - 8), (7960, 7965, 1, - 8), (7976, 7983, 1, - 8), (7992, 7999, 1, - 8),
     (8008, 8013, 1, - 8), (8025, 8031, 2, - 8), (8040, 8047, 1, - 8), (8072, 8079, 1, - 8),
     (8088, 8095, 1, - 8), (8104, 8111, 1, - 8), (8120, 8121, 1, - 8), (8122, 8123, 1, - 74),
     (8124, 8124, 1, - 9), (8136, 8139, 1, - 86), (8140, 8140, 1, - 9), (8152, 8153, 1, - 8),
     (8154, 8155, 1, - 100), (8168, 8169, 1, - 8), (8170, 8171, 1, - 112),
     (8172, 8172, 1, - 7), (8184, 8185, 1, - 128), (8186, 8187, 1, - 126),
     (8188, 8188, 1, - 9), (8486, 8486, 1, - 7517), (8490, 8490, 1, - 8383),
     (8491, 8491, 1, - 8262), (8498, 8498, 1, 28), (8544, 8559, 1, 16), (8579, 8579, 1, 1),
     (9398, 9423, 1, 26), (11264, 11311, 1, 48), (11360, 11360, 1, 1),
     (11362, 11362, 1, - 10743), (11363, 11363, 1, - 3814), (11364, 11364, 1, - 10727),
     (11367, 11371, 2, 1), (11373, 11373, 1, - 10780), (11374, 11374, 1, - 10749),
     (11375, 11375, 1, - 10783), (11376, 11376, 1, - 10782), (11378, 11378, 1, 1),
     (11381, 11381, 1, 1), (11390, 11391, 1, - 10815), (11392, 11490, 2, 1),
     (11499, 11501, 2, 1), (11506, 11506, 1, 1), (42560, 42604, 2, 1), (42624, 42650, 2, 1),
     (42786, 42798, 2, 1), (42802, 42862, 2, 1), (42873, 42875, 2, 1),
     (42877, 42877, 1, - 35332), (42878, 42886, 2, 1), (42891, 42891, 1, 1),
     (42893, 42893, 1, - 42280), (42896, 42898, 2, 1), (42902, 42920, 2, 1),
     (42922, 42922, 1, - 42308), (42923, 42923, 1, - 42319), (42924, 42924, 1, - 42315),
     (42925, 42925, 1, - 42305), (42926, 42926, 1, - 42308), (42928, 42928, 1, - 42258),
     (42929, 42929, 1, - 42282), (42930, 42930, 1, - 42261), (42931, 42931, 1, 928),
     (42932, 42946, 2, 1), (42948, 42948, 1, - 48), (42949, 42949, 1, - 42307),
     (42950, 42950, 1, - 35384), (42951, 42953, 2, 1), (42960, 42960, 1, 1),
     (42966, 42968, 2, 1), (42997, 42997, 1, 1), (65313, 65338, 1, 32), (66560, 66599, 1, 40),
     (66736, 66771, 1, 40), (66928, 66938, 1, 39), (66940, 66954, 1, 39),
     (66956, 66962, 1, 39), (66964, 66965, 1, 39), (68736, 68786, 1, 64),
     (71840, 71871, 1, 32), (93760, 93791, 1, 32), (125184, 125217, 1, 34)]"

definition upper_runs :: "(nat \<times> nat \<times> nat \<times> int) list" where
  "upper_runs =
    [(181, 181, 1, 743), (224, 246, 1, - 32), (248, 254, 1, - 32), (255, 255, 1, 121),
     (257, 303, 2, - 1), (305, 305, 1, - 232), (307, 311, 2, - 1), (314, 328, 2, - 1),
     (331, 375, 2, - 1), (378, 382, 2, - 1), (383, 383, 1, - 300), (384, 384, 1, 195),
     (387, 389, 2, - 1), (392, 392, 1, - 1), (396, 396, 1, - 1), (402, 402, 1, - 1),
     (405, 405, 1, 97), (409, 409, 1, - 1), (410, 410, 1, 163), (414, 414, 1, 130),
     (417, 421, 2, - 1), (424, 424, 1, - 1), (429, 429, 1, - 1), (432, 432, 1, - 1),
     (436, 438, 2, - 1), (441, 441, 1, - 1), (445, 445, 1, - 1), (447, 447, 1, 56),
     (453, 453, 1, - 1), (454, 454, 1, - 2), (456, 456, 1, - 1), (457, 457, 1, - 2),
     (459, 459, 1, - 1), (460, 460, 1, - 2), (462, 476, 2, - 1), (477, 477, 1, - 79),
     (479, 495, 2, - 1), (498, 498, 1, - 1), (499, 499, 1, - 2), (501, 501, 1, - 1),
     (505, 543, 2, - 1), (547, 563, 2, - 1), (572, 572, 1, - 1), (575, 576, 1, 10815),
     (578, 578, 1, - 1), (583, 591, 2, - 1), (592, 592, 1, 10783), (593, 593, 1, 10780),
     (594, 594, 1, 10782), (595, 595, 1, - 210), (596, 596, 1, - 206), (598, 599, 1, - 205),
     (601, 601, 1, - 202), (603, 603, 1, - 203), (604, 604, 1, 42319), (608, 608, 1, - 205),
     (609, 609, 1, 42315), (611, 611, 1, - 207), (613, 613, 1, 42280), (614, 614, 1, 42308),
     (616, 616, 1, - 209), (617, 617, 1, - 211), (618, 618, 1, 42308), (619, 619, 1, 10743),
     (620, 620, 1, 42305), (623, 623, 1, - 211), (625, 625, 1, 10749), (626, 626, 1, - 213),
     (629, 629, 1, - 214), (637, 637, 1, 10727), (640, 640, 1, - 218), (642, 642, 1, 42307),
     (643, 643, 1, - 218), (647, 647, 1, 42282), (648, 648, 1, - 218), (649, 649, 1, - 69),
     (650, 651, 1, - 217), (652, 652, 1, - 71), (658, 658, 1, - 219), (669, 669, 1, 42261),
     (670, 670, 1, 42258), (837, 837, 1, 84), (881, 883, 2, - 1), (887, 887, 1, - 1),
     (891, 893, 1, 130), (940, 940, 1, - 38), (941, 943, 1, - 37), (945, 961, 1, - 32),
     (962, 962, 1, - 31), (963, 971, 1, - 32), (972, 972, 1, - 64), (973, 974, 1, - 63),
     (976, 976, 1, - 62), (977, 977, 1, - 57), (981, 981, 1, - 47), (982, 982, 1, - 54),
     (983, 983, 1, - 8), (985, 1007, 2, - 1), (1008, 1008, 1, - 86), (1009, 1009, 1, - 80),
     (1010, 1010, 1, 7), (1011, 1011, 1, - 116), (1013, 1013, 1, - 96), (1016, 1016, 1, - 1),
     (1019, 1019, 1, - 1), (1281, 1327, 2, - 1), (1377, 1414, 1, - 48), (4304, 4346, 1, 3008),
     (4349, 4351, 1, 3008), (5112, 5117, 1, - 8), (7296, 7296, 1, - 6254),
     (7297, 7297, 1, - 6253), (7298, 7298, 1, - 6244), (7299, 7300, 1, - 6242),
     (7301, 7301, 1, - 6243), (7302, 7302, 1, - 6236), (7303, 7303, 1, - 6181),
     (7304, 7304, 1, 35266), (7545, 7545, 1, 35332), (7549, 7549, 1, 3814),
     (7566, 7566, 1, 35384), (7681, 7829, 2, - 1), (7835, 7835, 1, - 59), (7841, 7935, 2, - 1),
     (7936, 7943, 1, 8), (7952, 7957, 1, 8), (7968, 7975, 1, 8), (7984, 7991, 1, 8),
     (8000, 8005, 1, 8), (8017, 8023, 2, 8), (8032, 8039, 1, 8), (8048, 8049, 1, 74),
     (8050, 8053, 1, 86), (8054, 8055, 1, 100), (8056, 8057, 1, 128), (8058, 8059, 1, 112),
     (8060, 8061, 1, 126), (8112, 8113, 1, 8), (8126, 8126, 1, - 7205), (8144, 8145, 1, 8),
     (8160, 8161, 1, 8), (8165, 8165, 1, 7), (8526, 8526, 1, - 28), (8560, 8575, 1, - 16),
     (8580, 8580, 1, - 1), (9424, 9449, 1, - 26), (11312, 11359, 1, - 48),
     (11361, 11361, 1, - 1), (11365, 11365, 1, - 10795), (11366, 11366, 1, - 10792),
     (11368, 11372, 2, - 1), (11379, 11379, 1, - 1), (11382, 11382, 1, - 1),
     (11393, 11491, 2, - 1), (11500, 11502, 2, - 1), (11507, 11507, 1, - 1),
     (11520, 11557, 1, - 7264), (11559, 11559, 1, - 7264), (11565, 11565, 1, - 7264),
     (42561, 42605, 2, - 1), (42625, 42651, 2, - 1), (42787, 42799, 2, - 1),
     (42803, 42863, 2, - 1), (42874, 42876, 2, - 1), (42879, 42887, 2, - 1),
     (42892, 42892, 1, - 1), (42897, 42899, 2, - 1), (42900, 42900, 1, 48),
     (42903, 42921, 2, - 1), (42933, 42947, 2, - 1), (42952, 42954, 2, - 1),
     (42961, 42961, 1, - 1), (42967, 42969, 2, - 1), (42998, 42998, 1, - 1),
     (43859, 43859, 1, - 928), (43888, 43967, 1, - 38864), (65345, 65370, 1, - 32),
     (66600, 66639, 1, - 40), (66776, 66811, 1, - 40), (66967, 66977, 1, - 39),
     (66979, 66993, 1, - 39), (66995, 67001, 1, - 39), (67003, 67004, 1, - 39),
     (68800, 68850, 1, - 64), (71872, 71903, 1, - 32), (93792, 93823, 1, - 32),
     (125218, 125251, 1, - 34)]"

text \<open>The code points whose upper case is more than one code point.\<close>

definition upper_special :: "(nat \<times> ustr) list" where
  "upper_special =
    [(223, [83, 83]), (329, [700, 78]), (496, [74, 780]), (912, [921, 776, 769]),
     (944, [933, 776, 769]), (1415, [1333, 1362]), (7830, [72, 817]), (7831, [84, 776]),
     (7832, [87, 778]), (7833, [89, 778]), (7834, [65, 702]), (8016, [933, 787]),
     (8018, [933, 787, 768]), (8020, [933, 787, 769]), (8022, [933, 787, 834]),
     (8064, [7944, 921]), (8065, [7945, 921]), (8066, [7946, 921]), (8067, [7947, 921]),
     (8068, [7948, 921]), (8069, [7949, 921]), (8070, [7950, 921]), (8071, [7951, 921]),
     (8072, [7944, 921]), (8073, [7945, 921]), (8074, [7946, 921]), (8075, [7947, 921]),
     (8076, [7948, 921]), (8077, [7949, 921]), (8078, [7950, 921]), (8079, [7951, 921]),
     (8080, [7976, 921]), (8081, [7977, 921]), (8082, [7978, 921]), (8083, [7979, 921]),
     (8084, [7980, 921]), (8085, [7981, 921]), (8086, [7982, 921]), (8087, [7983, 921]),
     (8088, [7976, 921]), (8089, [7977, 921]), (8090, [7978, 921]), (8091, [7979, 921]),
     (8092, [7980, 921]), (8093, [7981, 921]), (8094, [7982, 921]), (8095, [7983, 921]),
     (8096, [8040, 921]), (8097, [8041, 921]), (8098, [8042, 921]), (8099, [8043, 921]),
     (8100, [8044, 921]), (8101, [8045, 921]), (8102, [8046, 921]), (8103, [8047, 921]),
     (8104, [8040, 921]), (8105, [8041, 921]), (8106, [8042, 921]), (8107, [8043, 921]),
     (8108, [8044, 921]), (8109, [8045, 921]), (8110, [8046, 921]), (8111, [8047, 921]),
     (8114, [8122, 921]), (8115, [913, 921]), (8116, [902, 921]), (8118, [913, 834]),
     (8119, [913, 834, 921]), (8124, [913, 921]), (8130, [8138, 921]), (8131, [919, 921]),
     (8132, [905, 921]), (8134, [919, 834]), (8135, [919, 834, 921]), (8140, [919, 921]),
     (8146, [921, 776, 768]), (8147, [921, 776, 769]), (8150, [921, 834]),
     (8151, [921, 776, 834]), (8162, [933, 776, 768]), (8163, [933, 776, 769]),
     (8164, [929, 787]), (8166, [933, 834]), (8167, [933, 776, 834]), (8178, [8186, 921]),
     (8179, [937, 921]), (8180, [911, 921]), (8182, [937, 834]), (8183, [937, 834, 921]),
     (8188, [937, 921]), (64256, [70, 70]), (64257, [70, 73]), (64258, [70, 76]),
     (64259, [70, 70, 73]), (64260, [70, 70, 76]), (64261, [83, 84]), (64262, [83, 84]),
     (64275, [1348, 1350]), (64276, [1348, 1333]), (64277, [1348, 1339]),
     (64278, [1358, 1350]), (64279, [1348, 1341])]"

text \<open>
  The lower case of one code point that is not the capital sigma. U+0130 is the one
  code point whose lower case is two code points.
\<close>

definition lower_cp :: "nat \<Rightarrow> ustr" where
  "lower_cp c =
     (if 65 \<le> c \<and> c \<le> 90 then [c + 32]
      else if c < 128 then [c]
      else if 1024 \<le> c \<and> c \<le> 1039 then [c + 80]
      else if 1040 \<le> c \<and> c \<le> 1071 then [c + 32]
      else if (1120 \<le> c \<and> c \<le> 1153 \<or> 1162 \<le> c \<and> c \<le> 1215 \<or> 1232 \<le> c \<and> c \<le> 1279)
              \<and> even c then [c + 1]
      else if c = 1216 then [1231]
      else if 1217 \<le> c \<and> c \<le> 1230 \<and> odd c then [c + 1]
      else if 1024 \<le> c \<and> c \<le> 1279 then [c]
      else if c = 304 then [105, 775]
      else [case_shift lower_runs c])"

definition upper_cp :: "nat \<Rightarrow> ustr" where
  "upper_cp c =
     (if 97 \<le> c \<and> c \<le> 122 then [c - 32]
      else if c < 128 then [c]
      else if 1104 \<le> c \<and> c \<le> 1119 then [c - 80]
      else if 1072 \<le> c \<and> c \<le> 1103 then [c - 32]
      else if (1120 \<le> c \<and> c \<le> 1153 \<or> 1162 \<le> c \<and> c \<le> 1215 \<or> 1232 \<le> c \<and> c \<le> 1279)
              \<and> odd c then [c - 1]
      else if c = 1231 then [1216]
      else if 1217 \<le> c \<and> c \<le> 1230 \<and> even c then [c - 1]
      else if 1024 \<le> c \<and> c \<le> 1279 then [c]
      else (case map_of upper_special c of
              Some cs \<Rightarrow> cs
            | None \<Rightarrow> [case_shift upper_runs c]))"

text \<open>
  The capital sigma U+03A3 becomes the final sigma U+03C2 when a cased letter stands
  before it and none after it, code points that are case-ignorable being skipped on
  both sides; otherwise it becomes U+03C3. The two tables are inclusive ranges:
  the case-ignorable code points, and the cased code points that are not
  case-ignorable (only such a code point is ever tested for being cased).
\<close>

definition in_ranges :: "(nat \<times> nat) list \<Rightarrow> nat \<Rightarrow> bool" where
  "in_ranges rs c = list_ex (\<lambda>(lo, hi). lo \<le> c \<and> c \<le> hi) rs"

definition case_ignorable_ranges :: "(nat \<times> nat) list" where
  "case_ignorable_ranges =
    [(39, 39), (46, 46), (58, 58), (94, 94), (96, 96), (168, 168), (173, 173), (175, 175),
     (180, 180), (183, 184), (688, 879), (884, 885), (890, 890), (900, 901), (903, 903),
     (1155, 1161), (1369, 1369), (1375, 1375), (1425, 1469), (1471, 1471), (1473, 1474),
     (1476, 1477), (1479, 1479), (1524, 1524), (1536, 1541), (1552, 1562), (1564, 1564),
     (1600, 1600), (1611, 1631), (1648, 1648), (1750, 1757), (1759, 1768), (1770, 1773),
     (1807, 1807), (1809, 1809), (1840, 1866), (1958, 1968), (2027, 2037), (2042, 2042),
     (2045, 2045), (2070, 2093), (2137, 2139), (2184, 2184), (2192, 2193), (2200, 2207),
     (2249, 2306), (2362, 2362), (2364, 2364), (2369, 2376), (2381, 2381), (2385, 2391),
     (2402, 2403), (2417, 2417), (2433, 2433), (2492, 2492), (2497, 2500), (2509, 2509),
     (2530, 2531), (2558, 2558), (2561, 2562), (2620, 2620), (2625, 2626), (2631, 2632),
     (2635, 2637), (2641, 2641), (2672, 2673), (2677, 2677), (2689, 2690), (2748, 2748),
     (2753, 2757), (2759, 2760), (2765, 2765), (2786, 2787), (2810, 2815), (2817, 2817),
     (2876, 2876), (2879, 2879), (2881, 2884), (2893, 2893), (2901, 2902), (2914, 2915),
     (2946, 2946), (3008, 3008), (3021, 3021), (3072, 3072), (3076, 3076), (3132, 3132),
     (3134, 3136), (3142, 3144), (3146, 3149), (3157, 3158), (3170, 3171), (3201, 3201),
     (3260, 3260), (3263, 3263), (3270, 3270), (3276, 3277), (3298, 3299), (3328, 3329),
     (3387, 3388), (3393, 3396), (3405, 3405), (3426, 3427), (3457, 3457), (3530, 3530),
     (3538, 3540), (3542, 3542), (3633, 3633), (3636, 3642), (3654, 3662), (3761, 3761),
     (3764, 3772), (3782, 3782), (3784, 3789), (3864, 3865), (3893, 3893), (3895, 3895),
     (3897, 3897), (3953, 3966), (3968, 3972), (3974, 3975), (3981, 3991), (3993, 4028),
     (4038, 4038), (4141, 4144), (4146, 4151), (4153, 4154), (4157, 4158), (4184, 4185),
     (4190, 4192), (4209, 4212), (4226, 4226), (4229, 4230), (4237, 4237), (4253, 4253),
     (4348, 4348), (4957, 4959), (5906, 5908), (5938, 5939), (5970, 5971), (6002, 6003),
     (6068, 6069), (6071, 6077), (6086, 6086), (6089, 6099), (6103, 6103), (6109, 6109),
     (6155, 6159), (6211, 6211), (6277, 6278), (6313, 6313), (6432, 6434), (6439, 6440),
     (6450, 6450), (6457, 6459), (6679, 6680), (6683, 6683), (6742, 6742), (6744, 6750),
     (6752, 6752), (6754, 6754), (6757, 6764), (6771, 6780), (6783, 6783), (6823, 6823),
     (6832, 6862), (6912, 6915), (6964, 6964), (6966, 6970), (6972, 6972), (6978, 6978),
     (7019, 7027), (7040, 7041), (7074, 7077), (7080, 7081), (7083, 7085), (7142, 7142),
     (7144, 7145), (7149, 7149), (7151, 7153), (7212, 7219), (7222, 7223), (7288, 7293),
     (7376, 7378), (7380, 7392), (7394, 7400), (7405, 7405), (7412, 7412), (7416, 7417),
     (7468, 7530), (7544, 7544), (7579, 7679), (8125, 8125), (8127, 8129), (8141, 8143),
     (8157, 8159), (8173, 8175), (8189, 8190), (8203, 8207), (8216, 8217), (8228, 8228),
     (8231, 8231), (8234, 8238), (8288, 8292), (8294, 8303), (8305, 8305), (8319, 8319),
     (8336, 8348), (8400, 8432), (11388, 11389), (11503, 11505), (11631, 11631),
     (11647, 11647), (11744, 11775), (11823, 11823), (12293, 12293), (12330, 12333),
     (12337, 12341), (12347, 12347), (12441, 12446), (12540, 12542), (40981, 40981),
     (42232, 42237), (42508, 42508), (42607, 42610), (42612, 42621), (42623, 42623),
     (42652, 42655), (42736, 42737), (42752, 42785), (42864, 42864), (42888, 42890),
     (42994, 42996), (43000, 43001), (43010, 43010), (43014, 43014), (43019, 43019),
     (43045, 43046), (43052, 43052), (43204, 43205), (43232, 43249), (43263, 43263),
     (43302, 43309), (43335, 43345), (43392, 43394), (43443, 43443), (43446, 43449),
     (43452, 43453), (43471, 43471), (43493, 43494), (43561, 43566), (43569, 43570),
     (43573, 43574), (43587, 43587), (43596, 43596), (43632, 43632), (43644, 43644),
     (43696, 43696), (43698, 43700), (43703, 43704), (43710, 43711), (43713, 43713),
     (43741, 43741), (43756, 43757), (43763, 43764), (43766, 43766), (43867, 43871),
     (43881, 43883), (44005, 44005), (44008, 44008), (44013, 44013), (64286, 64286),
     (64434, 64450), (65024, 65039), (65043, 65043), (65056, 65071), (65106, 65106),
     (65109, 65109), (65279, 65279), (65287, 65287), (65294, 65294), (65306, 65306),
     (65342, 65342), (65344, 65344), (65392, 65392), (65438, 65439), (65507, 65507),
     (65529, 65531), (66045, 66045), (66272, 66272), (66422, 66426), (67456, 67461),
     (67463, 67504), (67506, 67514), (68097, 68099), (68101, 68102), (68108, 68111),
     (68152, 68154), (68159, 68159), (68325, 68326), (68900, 68903), (69291, 69292),
     (69446, 69456), (69506, 69509), (69633, 69633), (69688, 69702), (69744, 69744),
     (69747, 69748), (69759, 69761), (69811, 69814), (69817, 69818), (69821, 69821),
     (69826, 69826), (69837, 69837), (69888, 69890), (69927, 69931), (69933, 69940),
     (70003, 70003), (70016, 70017), (70070, 70078), (70089, 70092), (70095, 70095),
     (70191, 70193), (70196, 70196), (70198, 70199), (70206, 70206), (70367, 70367),
     (70371, 70378), (70400, 70401), (70459, 70460), (70464, 70464), (70502, 70508),
     (70512, 70516), (70712, 70719), (70722, 70724), (70726, 70726), (70750, 70750),
     (70835, 70840), (70842, 70842), (70847, 70848), (70850, 70851), (71090, 71093),
     (71100, 71101), (71103, 71104), (71132, 71133), (71219, 71226), (71229, 71229),
     (71231, 71232), (71339, 71339), (71341, 71341), (71344, 71349), (71351, 71351),
     (71453, 71455), (71458, 71461), (71463, 71467), (71727, 71735), (71737, 71738),
     (71995, 71996), (71998, 71998), (72003, 72003), (72148, 72151), (72154, 72155),
     (72160, 72160), (72193, 72202), (72243, 72248), (72251, 72254), (72263, 72263),
     (72273, 72278), (72281, 72283), (72330, 72342), (72344, 72345), (72752, 72758),
     (72760, 72765), (72767, 72767), (72850, 72871), (72874, 72880), (72882, 72883),
     (72885, 72886), (73009, 73014), (73018, 73018), (73020, 73021), (73023, 73029),
     (73031, 73031), (73104, 73105), (73109, 73109), (73111, 73111), (73459, 73460),
     (78896, 78904), (92912, 92916), (92976, 92982), (92992, 92995), (94031, 94031),
     (94095, 94111), (94176, 94177), (94179, 94180), (110576, 110579), (110581, 110587),
     (110589, 110590), (113821, 113822), (113824, 113827), (118528, 118573), (118576, 118598),
     (119143, 119145), (119155, 119170), (119173, 119179), (119210, 119213), (119362, 119364),
     (121344, 121398), (121403, 121452), (121461, 121461), (121476, 121476), (121499, 121503),
     (121505, 121519), (122880, 122886), (122888, 122904), (122907, 122913), (122915, 122916),
     (122918, 122922), (123184, 123197), (123566, 123566), (123628, 123631), (125136, 125142),
     (125252, 125259), (127995, 127999), (917505, 917505), (917536, 917631), (917760, 917999)]"

definition cased_ranges :: "(nat \<times> nat) list" where
  "cased_ranges =
    [(65, 90), (97, 122), (170, 170), (181, 181), (186, 186), (192, 214), (216, 246),
     (248, 442), (444, 447), (452, 659), (661, 687), (880, 883), (886, 887), (891, 893),
     (895, 895), (902, 902), (904, 906), (908, 908), (910, 929), (931, 1013), (1015, 1153),
     (1162, 1327), (1329, 1366), (1376, 1416), (4256, 4293), (4295, 4295), (4301, 4301),
     (4304, 4346), (4349, 4351), (5024, 5109), (5112, 5117), (7296, 7304), (7312, 7354),
     (7357, 7359), (7424, 7467), (7531, 7543), (7545, 7578), (7680, 7957), (7960, 7965),
     (7968, 8005), (8008, 8013), (8016, 8023), (8025, 8025), (8027, 8027), (8029, 8029),
     (8031, 8061), (8064, 8116), (8118, 8124), (8126, 8126), (8130, 8132), (8134, 8140),
     (8144, 8147), (8150, 8155), (8160, 8172), (8178, 8180), (8182, 8188), (8450, 8450),
     (8455, 8455), (8458, 8467), (8469, 8469), (8473, 8477), (8484, 8484), (8486, 8486),
     (8488, 8488), (8490, 8493), (8495, 8500), (8505, 8505), (8508, 8511), (8517, 8521),
     (8526, 8526), (8544, 8575), (8579, 8580), (9398, 9449), (11264, 11387), (11390, 11492),
     (11499, 11502), (11506, 11507), (11520, 11557), (11559, 11559), (11565, 11565),
     (42560, 42605), (42624, 42651), (42786, 42863), (42865, 42887), (42891, 42894),
     (42896, 42954), (42960, 42961), (42963, 42963), (42965, 42969), (42997, 42998),
     (43002, 43002), (43824, 43866), (43872, 43880), (43888, 43967), (64256, 64262),
     (64275, 64279), (65313, 65338), (65345, 65370), (66560, 66639), (66736, 66771),
     (66776, 66811), (66928, 66938), (66940, 66954), (66956, 66962), (66964, 66965),
     (66967, 66977), (66979, 66993), (66995, 67001), (67003, 67004), (68736, 68786),
     (68800, 68850), (71840, 71903), (93760, 93823), (119808, 119892), (119894, 119964),
     (119966, 119967), (119970, 119970), (119973, 119974), (119977, 119980), (119982, 119993),
     (119995, 119995), (119997, 120003), (120005, 120069), (120071, 120074), (120077, 120084),
     (120086, 120092), (120094, 120121), (120123, 120126), (120128, 120132), (120134, 120134),
     (120138, 120144), (120146, 120485), (120488, 120512), (120514, 120538), (120540, 120570),
     (120572, 120596), (120598, 120628), (120630, 120654), (120656, 120686), (120688, 120712),
     (120714, 120744), (120746, 120770), (120772, 120779), (122624, 122633), (122635, 122654),
     (125184, 125251), (127280, 127305), (127312, 127337), (127344, 127369)]"

definition final_sigma :: "ustr \<Rightarrow> ustr \<Rightarrow> bool" where
  "final_sigma seen rest =
     (case dropWhile (in_ranges case_ignorable_ranges) seen of
        [] \<Rightarrow> False
      | p # _ \<Rightarrow>
          in_ranges cased_ranges p
          \<and> (case dropWhile (in_ranges case_ignorable_ranges) rest of
                [] \<Rightarrow> True
              | n # _ \<Rightarrow> \<not> in_ranges cased_ranges n))"

text \<open>
  \<^verbatim>\<open>text.lower()\<close>. The first argument of the loop is the part of the text already
  read, nearest code point first; the second is the part still to be read.
\<close>

fun lower_from :: "ustr \<Rightarrow> ustr \<Rightarrow> ustr" where
  "lower_from seen [] = []"
| "lower_from seen (c # rest) =
     (if c = 931 then [if final_sigma seen rest then 962 else 963] else lower_cp c)
     @ lower_from (c # seen) rest"

definition py_lower :: "ustr \<Rightarrow> ustr" where
  "py_lower t = lower_from [] t"

text \<open>\<^verbatim>\<open>text.upper()\<close>.\<close>

definition py_upper :: "ustr \<Rightarrow> ustr" where
  "py_upper t = concat (map upper_cp t)"

text \<open>The code points for which \<^verbatim>\<open>str.isspace\<close> holds, and \<^verbatim>\<open>str.strip()\<close>.\<close>

definition is_space :: "nat \<Rightarrow> bool" where
  "is_space c =
     (9 \<le> c \<and> c \<le> 13 \<or> 28 \<le> c \<and> c \<le> 32 \<or> c = 133 \<or> c = 160 \<or> c = 5760
      \<or> 8192 \<le> c \<and> c \<le> 8202 \<or> c = 8232 \<or> c = 8233 \<or> c = 8239 \<or> c = 8287
      \<or> c = 12288)"

definition py_strip :: "ustr \<Rightarrow> ustr" where
  "py_strip t = rev (dropWhile is_space (rev (dropWhile is_space t)))"

section \<open>Stage 0 data\<close>

datatype ContradictionType = TYPE_A | TYPE_B | TYPE_C | TYPE_D | TYPE_E | TYPE_F

datatype Severity = LOW | MEDIUM | HIGH | CRITICAL

text \<open>
  One entry of the list that \<^verbatim>\<open>search_diseases_in_text\<close> returns. The
  \<^verbatim>\<open>categories\<close> dictionary always has the keys 1..4; each value is the column of
  the criterion, which may be NULL.
\<close>

record disease =
  d_article :: int
  d_subpoint :: ustr
  d_description :: ustr
  d_similarity :: real
  d_graph_1 :: "ustr option"
  d_graph_2 :: "ustr option"
  d_graph_3 :: "ustr option"
  d_graph_4 :: "ustr option"

text \<open>\<^verbatim>\<open>disease.get("categories", {}).get(g)\<close>: \<open>None\<close> for a NULL column and for a
  key other than 1..4.\<close>

definition categories_get :: "disease \<Rightarrow> int \<Rightarrow> ustr option" where
  "categories_get d g =
     (if g = 1 then d_graph_1 d else if g = 2 then d_graph_2 d
      else if g = 3 then d_graph_3 d else if g = 4 then d_graph_4 d else None)"

text \<open>
  The human-readable texts are f-strings around fixed Russian sentences. Each is kept
  as a constructor that carries exactly the values the f-string interpolates.
\<close>

datatype message =
    NoText
  | TypeE_description ustr
  | TypeE_recommendation
  | TypeF_description "ustr option"
  | TypeF_recommendation
  | TypeA_description string nat
  | TypeA_recommendation
  | TypeB_description string
  | TypeB_recommendation
  | TypeC_description int "ustr option" string int "ustr option"
  | TypeC_recommendation int
  | TypeD_description ustr int ustr int ustr
  | TypeD_recommendation int ustr
  | LowConfidence_reason real
  | CategoryUndetermined_reason int "ustr option"
  | Mismatch_reason ustr "ustr option"
  | Mismatch_recommendation "int option"
  | PartialMismatch_reason ustr "ustr option"
  | PartialMismatch_recommendation "int option" "ustr option"
  | HealthyRule_reasoning
  | StageSkipped_reasoning
  | SubpointMissing_error "ustr option" int
  | LookupFailed_error
  | Text ustr

record ContradictionResult =
  has_contradiction :: bool
  contradiction_type :: "ContradictionType option"
  severity :: Severity
  description :: message
  source_field :: "string option"
  target_field :: "string option"
  source_value :: "ustr option"
  target_value :: "ustr option"
  rag_matches :: "disease list"
  recommendation :: "message option"

text \<open>\<^verbatim>\<open>ContradictionResult(has_contradiction=False)\<close>, every other field at its default.\<close>

definition no_contradiction :: ContradictionResult where
  "no_contradiction =
     \<lparr>has_contradiction = False, contradiction_type = None, severity = LOW,
      description = NoText, source_field = None, target_field = None,
      source_value = None, target_value = None, rag_matches = [],
      recommendation = None\<rparr>"

text \<open>
  The three vocabularies are read from \<^verbatim>\<open>AIAnalyzer\<close> when the checker is built;
  they are the fields of the checker object.
\<close>

record ContradictionChecker =
  healthy_keywords :: "ustr list"
  pathology_keywords :: "ustr list"
  severe_keywords :: "ustr list"

section \<open>Text classifiers\<close>

text \<open>The Cyrillic category letters and negation markers, as code points.\<close>

definition cat_A_cyr :: ustr where "cat_A_cyr = [1040]"
definition cat_A_lat :: ustr where "cat_A_lat = [65]"

text \<open>"ne ", "net ", "bez ", "otsutstv" in Cyrillic.\<close>

definition negation_words :: "ustr list" where
  "negation_words =
     [[1085, 1077, 32], [1085, 1077, 1090, 32], [1073, 1077, 1079, 32],
      [1086, 1090, 1089, 1091, 1090, 1089, 1090, 1074]]"

text \<open>The loop over the pathology vocabulary of \<^verbatim>\<open>_is_healthy_text\<close>.\<close>

fun pathology_loop :: "ustr \<Rightarrow> ustr list \<Rightarrow> bool" where
  "pathology_loop text_lower [] = True"
| "pathology_loop text_lower (keyword # rest) =
     (case py_find keyword text_lower of
        None \<Rightarrow> pathology_loop text_lower rest
      | Some keyword_pos \<Rightarrow>
          (let context_before = py_slice text_lower (keyword_pos - 20) keyword_pos;
               has_negation = (\<exists>neg \<in> set negation_words. py_in neg context_before)
           in if \<not> has_negation then False else pathology_loop text_lower rest))"

definition is_healthy_text :: "ContradictionChecker \<Rightarrow> ustr \<Rightarrow> bool" where
  "is_healthy_text self text =
     (if text = [] then False
      else
        (let text_lower = py_lower text;
             has_healthy_keyword = (\<exists>keyword \<in> set (healthy_keywords self). py_in keyword text_lower)
         in if \<not> has_healthy_keyword then False
            else pathology_loop text_lower (pathology_keywords self)))"

text \<open>"ne ", "net ", "bez ", "otsutstv", "isklyuch" before the keyword;
  " ne ", " net", " otsutstv", " isklyuch", " ne obnaruzh", " ne vyyavl" after it.\<close>

definition negation_before :: "ustr list" where
  "negation_before =
     [[1085, 1077, 32], [1085, 1077, 1090, 32], [1073, 1077, 1079, 32],
      [1086, 1090, 1089, 1091, 1090, 1089, 1090, 1074],
      [1080, 1089, 1082, 1083, 1102, 1095]]"

definition negation_after :: "ustr list" where
  "negation_after =
     [[32, 1085, 1077, 32], [32, 1085, 1077, 1090],
      [32, 1086, 1090, 1089, 1091, 1090, 1089, 1090, 1074],
      [32, 1080, 1089, 1082, 1083, 1102, 1095],
      [32, 1085, 1077, 32, 1086, 1073, 1085, 1072, 1088, 1091, 1078],
      [32, 1085, 1077, 32, 1074, 1099, 1103, 1074, 1083]]"

text \<open>Whether the first occurrence of a keyword, at \<open>keyword_pos\<close>, is negated: a
  marker in the 25 code points before it or in the 30 after its end.\<close>

definition hit_negated :: "ustr \<Rightarrow> ustr \<Rightarrow> nat \<Rightarrow> bool" where
  "hit_negated text_lower keyword keyword_pos =
     (let keyword_end = keyword_pos + length keyword;
          context_before = py_slice text_lower (keyword_pos - 25) keyword_pos;
          context_after = py_slice text_lower keyword_end (min (length text_lower) (keyword_end + 30));
          has_negation_before = (\<exists>neg \<in> set negation_before. py_in neg context_before);
          has_negation_after = (\<exists>neg \<in> set negation_after. py_in neg context_after)
      in has_negation_before \<or> has_negation_after)"

text \<open>The loop over the severe vocabulary of \<^verbatim>\<open>_contains_severe_condition\<close>.\<close>

fun severe_loop :: "ustr \<Rightarrow> ustr list \<Rightarrow> bool \<times> ustr option" where
  "severe_loop text_lower [] = (False, None)"
| "severe_loop text_lower (keyword # rest) =
     (case py_find keyword text_lower of
        None \<Rightarrow> severe_loop text_lower rest
      | Some keyword_pos \<Rightarrow>
          if hit_negated text_lower keyword keyword_pos then severe_loop text_lower rest
          else (True, Some keyword))"

definition contains_severe_condition :: "ContradictionChecker \<Rightarrow> ustr \<Rightarrow> bool \<times> ustr option" where
  "contains_severe_condition self text =
     (if text = [] then (False, None)
      else severe_loop (py_lower text) (severe_keywords self))"

section \<open>The checks E and F\<close>

definition check_type_e :: "ContradictionChecker \<Rightarrow> ustr \<Rightarrow> ustr \<Rightarrow> ContradictionResult" where
  "check_type_e self diagnosis_text doctor_category =
     (let is_healthy = is_healthy_text self diagnosis_text;
          category_upper = py_strip (py_upper doctor_category)
      in if is_healthy \<and> category_upper \<notin> set [cat_A_cyr, cat_A_lat] then
           \<lparr>has_contradiction = True, contradiction_type = Some TYPE_E, severity = HIGH,
            description = TypeE_description doctor_category,
            source_field = Some ''diagnosis_text'', target_field = Some ''doctor_category'',
            source_value = Some (take 200 diagnosis_text), target_value = Some doctor_category,
            rag_matches = [], recommendation = Some TypeE_recommendation\<rparr>
         else no_contradiction)"

definition check_type_f :: "ContradictionChecker \<Rightarrow> ustr \<Rightarrow> ustr \<Rightarrow> ContradictionResult" where
  "check_type_f self diagnosis_text doctor_category =
     (let category_upper = py_strip (py_upper doctor_category)
      in if category_upper \<notin> set [cat_A_cyr, cat_A_lat] then no_contradiction
         else
           (case contains_severe_condition self diagnosis_text of
              (has_severe, found_keyword) \<Rightarrow>
                if has_severe then
                  \<lparr>has_contradiction = True, contradiction_type = Some TYPE_F, severity = CRITICAL,
                   description = TypeF_description found_keyword,
                   source_field = Some ''diagnosis_text'', target_field = Some ''doctor_category'',
                   source_value = Some (take 300 diagnosis_text), target_value = Some doctor_category,
                   rag_matches = [], recommendation = Some TypeF_recommendation\<rparr>
                else no_contradiction))"

section \<open>The reference store and the external capabilities\<close>

datatype exn = EmbeddingError | DatabaseError | CompletionError | ValidationError | AttributeError
  | HTTPException nat

text \<open>Rows of \<^verbatim>\<open>point_criteria\<close> and \<^verbatim>\<open>points_diagnoses\<close>, with the columns that
  validation reads.\<close>

record PointCriterion =
  pc_article :: int
  pc_subpoint :: ustr
  pc_description :: ustr
  pc_graph_1 :: "ustr option"
  pc_graph_2 :: "ustr option"
  pc_graph_3 :: "ustr option"
  pc_graph_4 :: "ustr option"
  criteria_embedding :: "real list option"

record PointDiagnosis =
  pd_article :: int
  pd_subpoint :: "ustr option"
  pd_graph_1 :: "ustr option"
  pd_graph_2 :: "ustr option"
  pd_graph_3 :: "ustr option"
  pd_graph_4 :: "ustr option"

text \<open>
  What a request sees of the outside: the embedding capability (which may raise), the
  distance operator of the vector index, the two tables, and whether executing a
  statement on the session raises.
\<close>

record world =
  create_embedding :: "ustr \<Rightarrow> exn + real list"
  cosine_distance :: "real list \<Rightarrow> real list \<Rightarrow> real"
  point_criteria :: "PointCriterion list"
  points_diagnoses :: "PointDiagnosis list"
  db_failure :: "exn option"

text \<open>The cosine distance of two vectors, \<open>1 - a\<cdot>b / (|a| |b|)\<close>, as the index
  computes it.\<close>

definition dot :: "real list \<Rightarrow> real list \<Rightarrow> real" where
  "dot a b = sum_list (map (\<lambda>(x, y). x * y) (zip a b))"

definition vector_cosine_distance :: "real list \<Rightarrow> real list \<Rightarrow> real" where
  "vector_cosine_distance a b = 1 - dot a b / (sqrt (dot a a) * sqrt (dot b b))"

section \<open>Semantic retrieval\<close>

text \<open>Python's \<^verbatim>\<open>round(x, 4)\<close>: to the nearest multiple of 0.0001, a tie going to the
  even one.\<close>

definition round_half_even :: "real \<Rightarrow> int" where
  "round_half_even x =
     (let f = \<lfloor>x\<rfloor>; d = x - of_int f
      in if d < 1 / 2 then f else if 1 / 2 < d then f + 1
         else if even f then f else f + 1)"

definition py_round4 :: "real \<Rightarrow> real" where
  "py_round4 x = of_int (round_half_even (x * 10000)) / 10000"

text \<open>
  The statement: the criteria that have an embedding, each with its distance to the
  query, ordered by distance, at most \<open>top_k\<close> of them. A negative LIMIT is an error
  of the database.
\<close>

definition with_distance :: "world \<Rightarrow> real list \<Rightarrow> PointCriterion \<Rightarrow> (PointCriterion \<times> real) option" where
  "with_distance db query_embedding c =
     (case criteria_embedding c of
        None \<Rightarrow> None
      | Some e \<Rightarrow> Some (c, cosine_distance db e query_embedding))"

definition nearest_criteria :: "world \<Rightarrow> real list \<Rightarrow> int \<Rightarrow> exn + (PointCriterion \<times> real) list" where
  "nearest_criteria db query_embedding top_k =
     (case db_failure db of
        Some e \<Rightarrow> Inl e
      | None \<Rightarrow>
          if top_k < 0 then Inl DatabaseError
          else Inr (take (nat top_k)
                 (sort_key snd (List.map_filter (with_distance db query_embedding) (point_criteria db)))))"

text \<open>The loop over the rows: drop those below the threshold, format the others.\<close>

fun format_rows :: "real \<Rightarrow> (PointCriterion \<times> real) list \<Rightarrow> disease list" where
  "format_rows similarity_threshold [] = []"
| "format_rows similarity_threshold ((criterion, distance) # rows) =
     (let similarity = 1 - distance
      in if similarity < similarity_threshold then format_rows similarity_threshold rows
         else \<lparr>d_article = pc_article criterion, d_subpoint = pc_subpoint criterion,
               d_description = pc_description criterion, d_similarity = py_round4 similarity,
               d_graph_1 = pc_graph_1 criterion, d_graph_2 = pc_graph_2 criterion,
               d_graph_3 = pc_graph_3 criterion, d_graph_4 = pc_graph_4 criterion\<rparr>
              # format_rows similarity_threshold rows)"

text \<open>\<^verbatim>\<open>RAGService.search_diseases_in_text\<close>: every exception of the body is caught and
  turned into the empty list.\<close>

definition search_diseases_in_text :: "world \<Rightarrow> ustr \<Rightarrow> int \<Rightarrow> real \<Rightarrow> disease list" where
  "search_diseases_in_text db text top_k similarity_threshold =
     (if text = [] \<or> length (py_strip text) < 10 then []
      else
        (case create_embedding db text of
           Inl e \<Rightarrow> []
         | Inr query_embedding \<Rightarrow>
             (case nearest_criteria db query_embedding top_k of
                Inl e \<Rightarrow> []
              | Inr rows \<Rightarrow> format_rows similarity_threshold rows)))"

text \<open>The distances from the stored embeddings to a query are not negative (as the
  cosine distance of real vectors is).\<close>

definition nonneg_distances :: "world \<Rightarrow> real list \<Rightarrow> bool" where
  "nonneg_distances db q =
     (\<forall>c \<in> set (point_criteria db). \<forall>e. criteria_embedding c = Some e \<longrightarrow>
         0 \<le> cosine_distance db e q)"

text \<open>The route \<^verbatim>\<open>/search-diseases-in-text\<close> wraps the list; its own handler is never
  reached, since the service does not raise.\<close>

record search_response =
  query_text :: ustr
  total_found :: nat
  threshold :: real
  diseases :: "disease list"

definition search_diseases_in_text_route :: "world \<Rightarrow> ustr \<Rightarrow> int \<Rightarrow> real \<Rightarrow> search_response" where
  "search_diseases_in_text_route db text top_k similarity_threshold =
     (let ds = search_diseases_in_text db text top_k similarity_threshold
      in \<lparr>query_text = take 200 text, total_found = length ds,
          threshold = similarity_threshold, diseases = ds\<rparr>)"

section \<open>The checks A, B, C and D\<close>

text \<open>The five supplementary fields, in the order of the dictionary, and the filter
  that keeps those with at least 10 code points after stripping.\<close>

definition additional_fields ::
  "ustr option \<Rightarrow> ustr option \<Rightarrow> ustr option \<Rightarrow> ustr option \<Rightarrow> ustr option \<Rightarrow> (string \<times> ustr option) list" where
  "additional_fields anamnesis complaints objective_data special_research_results doctor_notes =
     [(''anamnesis'', anamnesis), (''complaints'', complaints),
      (''objective_data'', objective_data),
      (''special_research_results'', special_research_results),
      (''doctor_notes'', doctor_notes)]"

fun non_empty_fields :: "(string \<times> ustr option) list \<Rightarrow> (string \<times> ustr) list" where
  "non_empty_fields [] = []"
| "non_empty_fields ((k, None) # rest) = non_empty_fields rest"
| "non_empty_fields ((k, Some v) # rest) =
     (if v \<noteq> [] \<and> 10 \<le> length (py_strip v) then (k, v) # non_empty_fields rest
      else non_empty_fields rest)"

text \<open>The category letters D, E, NG (Cyrillic) that make a Type A finding critical.\<close>

definition grave_categories :: "ustr option list" where
  "grave_categories = [Some [1044], Some [1045], Some [1053, 1043]]"

fun type_a_loop ::
  "ContradictionChecker \<Rightarrow> world \<Rightarrow> ustr \<Rightarrow> (string \<times> ustr) list \<Rightarrow> ContradictionResult" where
  "type_a_loop self db diagnosis_text [] = no_contradiction"
| "type_a_loop self db diagnosis_text ((field_name, field_value) # rest) =
     (if is_healthy_text self field_value then type_a_loop self db diagnosis_text rest
      else
        (let ds = search_diseases_in_text db field_value 3 (7 / 10)
         in if ds \<noteq> [] then
              \<lparr>has_contradiction = True, contradiction_type = Some TYPE_A,
               severity = (if \<exists>d \<in> set ds. categories_get d 1 \<in> set grave_categories
                           then CRITICAL else HIGH),
               description = TypeA_description field_name (length ds),
               source_field = Some ''diagnosis_text'', target_field = Some field_name,
               source_value = Some (take 200 diagnosis_text),
               target_value = Some (take 200 field_value),
               rag_matches = ds, recommendation = Some TypeA_recommendation\<rparr>
            else type_a_loop self db diagnosis_text rest))"

definition check_type_a ::
  "ContradictionChecker \<Rightarrow> world \<Rightarrow> ustr \<Rightarrow> (string \<times> ustr) list \<Rightarrow> ContradictionResult" where
  "check_type_a self db diagnosis_text extra_fields =
     (if \<not> is_healthy_text self diagnosis_text then no_contradiction
      else type_a_loop self db diagnosis_text extra_fields)"

fun type_b_loop :: "ContradictionChecker \<Rightarrow> ustr \<Rightarrow> (string \<times> ustr) list \<Rightarrow> ContradictionResult" where
  "type_b_loop self diagnosis_text [] = no_contradiction"
| "type_b_loop self diagnosis_text ((field_name, field_value) # rest) =
     (if is_healthy_text self field_value then
        \<lparr>has_contradiction = True, contradiction_type = Some TYPE_B, severity = MEDIUM,
         description = TypeB_description field_name,
         source_field = Some ''diagnosis_text'', target_field = Some field_name,
         source_value = Some (take 200 diagnosis_text),
         target_value = Some (take 200 field_value),
         rag_matches = [], recommendation = Some TypeB_recommendation\<rparr>
      else type_b_loop self diagnosis_text rest)"

definition check_type_b ::
  "ContradictionChecker \<Rightarrow> ustr \<Rightarrow> (string \<times> ustr) list \<Rightarrow> ContradictionResult" where
  "check_type_b self diagnosis_text extra_fields =
     (if is_healthy_text self diagnosis_text then no_contradiction
      else type_b_loop self diagnosis_text extra_fields)"

text \<open>
  The dictionary \<^verbatim>\<open>category_severity\<close> (A 1, B 2, V 3, V-IND 3, G 4, D 5, E 6, NG 7
  in Cyrillic letters) read with \<^verbatim>\<open>.get(key, 0)\<close>; a NULL category is a key that
  is not there.
\<close>

definition category_severity :: "ustr \<Rightarrow> int" where
  "category_severity c =
     (if c = [1040] then 1 else if c = [1041] then 2 else if c = [1042] then 3
      else if c = [1042, 45, 1048, 1053, 1044] then 3 else if c = [1043] then 4
      else if c = [1044] then 5 else if c = [1045] then 6
      else if c = [1053, 1043] then 7 else 0)"

definition category_severity_get :: "ustr option \<Rightarrow> int" where
  "category_severity_get c = (case c of None \<Rightarrow> 0 | Some s \<Rightarrow> category_severity s)"

text \<open>The loop over the matches of one field (Type C): the first match of another
  article whose graph-1 category is graver than the one of the diagnosis match.\<close>

fun type_c_diseases ::
  "disease \<Rightarrow> ustr \<Rightarrow> string \<Rightarrow> ustr \<Rightarrow> disease list \<Rightarrow> ContradictionResult option" where
  "type_c_diseases diagnosis_disease diagnosis_text field_name field_value [] = None"
| "type_c_diseases diagnosis_disease diagnosis_text field_name field_value (d # rest) =
     (let diagnosis_article = d_article diagnosis_disease;
          disease_article = d_article d
      in if disease_article \<noteq> 0 \<and> disease_article \<noteq> diagnosis_article then
           (let diagnosis_category = categories_get diagnosis_disease 1;
                disease_category = categories_get d 1;
                diagnosis_sev = category_severity_get diagnosis_category;
                disease_sev = category_severity_get disease_category
            in if disease_sev > diagnosis_sev then
                 Some \<lparr>has_contradiction = True, contradiction_type = Some TYPE_C,
                       severity = (if disease_sev \<ge> 5 then CRITICAL else HIGH),
                       description = TypeC_description diagnosis_article diagnosis_category
                                       field_name disease_article disease_category,
                       source_field = Some ''diagnosis_text'', target_field = Some field_name,
                       source_value = Some (take 200 diagnosis_text),
                       target_value = Some (take 200 field_value),
                       rag_matches = [diagnosis_disease, d],
                       recommendation = Some (TypeC_recommendation disease_article)\<rparr>
               else type_c_diseases diagnosis_disease diagnosis_text field_name field_value rest)
         else type_c_diseases diagnosis_disease diagnosis_text field_name field_value rest)"

fun type_c_fields ::
  "ContradictionChecker \<Rightarrow> world \<Rightarrow> disease \<Rightarrow> ustr \<Rightarrow> (string \<times> ustr) list \<Rightarrow> ContradictionResult" where
  "type_c_fields self db diagnosis_disease diagnosis_text [] = no_contradiction"
| "type_c_fields self db diagnosis_disease diagnosis_text ((field_name, field_value) # rest) =
     (if is_healthy_text self field_value then
        type_c_fields self db diagnosis_disease diagnosis_text rest
      else
        (case type_c_diseases diagnosis_disease diagnosis_text field_name field_value
                (search_diseases_in_text db field_value 3 (7 / 10)) of
           Some r \<Rightarrow> r
         | None \<Rightarrow> type_c_fields self db diagnosis_disease diagnosis_text rest))"

definition check_type_c ::
  "ContradictionChecker \<Rightarrow> world \<Rightarrow> ustr \<Rightarrow> (string \<times> ustr) list \<Rightarrow> ContradictionResult" where
  "check_type_c self db diagnosis_text extra_fields =
     (if is_healthy_text self diagnosis_text then no_contradiction
      else
        (case search_diseases_in_text db diagnosis_text 2 (65 / 100) of
           [] \<Rightarrow> no_contradiction
         | diagnosis_disease # _ \<Rightarrow>
             type_c_fields self db diagnosis_disease diagnosis_text extra_fields))"

definition check_type_d ::
  "ContradictionChecker \<Rightarrow> world \<Rightarrow> ustr \<Rightarrow> ustr \<Rightarrow> int \<Rightarrow> ContradictionResult" where
  "check_type_d self db diagnosis_text doctor_category graph =
     (if is_healthy_text self diagnosis_text then no_contradiction
      else
        (case search_diseases_in_text db diagnosis_text 1 (7 / 10) of
           [] \<Rightarrow> no_contradiction
         | best_match # _ \<Rightarrow>
             (case categories_get best_match graph of
                None \<Rightarrow> no_contradiction
              | Some expected_category \<Rightarrow>
                  if expected_category = [] then no_contradiction
                  else
                    (let doctor_cat_normalized = py_strip (py_upper doctor_category);
                         expected_cat_normalized = py_strip (py_upper expected_category)
                     in if doctor_cat_normalized \<noteq> expected_cat_normalized then
                          (let doctor_sev = category_severity doctor_cat_normalized;
                               expected_sev = category_severity expected_cat_normalized
                           in \<lparr>has_contradiction = True, contradiction_type = Some TYPE_D,
                               severity = (if \<bar>doctor_sev - expected_sev\<bar> \<ge> 2
                                           then CRITICAL else HIGH),
                               description = TypeD_description doctor_category
                                   (d_article best_match) (d_subpoint best_match) graph
                                   expected_category,
                               source_field = Some ''doctor_category'',
                               target_field = Some ''handbook_category'',
                               source_value = Some doctor_category,
                               target_value = Some expected_category,
                               rag_matches = [best_match],
                               recommendation = Some (TypeD_recommendation
                                   (d_article best_match) (d_subpoint best_match))\<rparr>)
                        else no_contradiction))))"

section \<open>Stage 0\<close>

text \<open>The request: one specialist's examination, as the route receives it.\<close>

record examination =
  diagnosis_text :: ustr
  doctor_category :: ustr
  specialty :: ustr
  anamnesis :: "ustr option"
  complaints :: "ustr option"
  objective_data :: "ustr option"
  special_research_results :: "ustr option"
  conclusion_text :: "ustr option"
  doctor_notes :: "ustr option"
  icd10_codes :: "ustr list option"
  article_hint :: "int option"
  subpoint_hint :: "ustr option"
  graph :: int

text \<open>\<^verbatim>\<open>check_for_contradictions\<close>: the six checks in the order E, F, A, B, C, D; a
  check that fired is appended to the list.\<close>

definition append_if :: "ContradictionResult \<Rightarrow> ContradictionResult list" where
  "append_if r = (if has_contradiction r then [r] else [])"

definition record_fields :: "examination \<Rightarrow> (string \<times> ustr) list" where
  "record_fields r =
     non_empty_fields (additional_fields (anamnesis r) (complaints r)
       (objective_data r) (special_research_results r) (doctor_notes r))"

definition check_for_contradictions ::
  "ContradictionChecker \<Rightarrow> world \<Rightarrow> examination \<Rightarrow> ContradictionResult list" where
  "check_for_contradictions self db r =
     (let extra_fields = record_fields r
      in append_if (check_type_e self (diagnosis_text r) (doctor_category r))
         @ append_if (check_type_f self (diagnosis_text r) (doctor_category r))
         @ append_if (check_type_a self db (diagnosis_text r) extra_fields)
         @ append_if (check_type_b self (diagnosis_text r) extra_fields)
         @ append_if (check_type_c self db (diagnosis_text r) extra_fields)
         @ append_if (check_type_d self db (diagnosis_text r) (doctor_category r) (graph r)))"

section \<open>Lookup in the reference tables\<close>

text \<open>\<^verbatim>\<open>CriteriaValidationResult\<close>; the dictionary \<^verbatim>\<open>categories\<close> is an association
  list from the graph to the column, empty when no row of Appendix 1 was found.\<close>

record CriteriaValidationResult =
  is_valid :: bool
  cv_article :: int
  cv_subpoint :: "ustr option"
  error_message :: "message option"
  categories :: "(int \<times> ustr option) list"

text \<open>The strings "null" and "None".\<close>

definition str_null :: ustr where "str_null = [110, 117, 108, 108]"
definition str_None :: ustr where "str_None = [78, 111, 110, 101]"

text \<open>The two WHERE clauses on the subpoint column: the one used for an article
  without subpoints (NULL, the empty string or 'null'), and the plain comparison with
  the given string (which no NULL satisfies).\<close>

definition subpoint_absent :: "ustr option \<Rightarrow> bool" where
  "subpoint_absent s = (s = None \<or> s = Some [] \<or> s = Some str_null)"

definition subpoint_clause :: "ustr option \<Rightarrow> ustr option \<Rightarrow> bool" where
  "subpoint_clause subpoint s =
     (if subpoint = None \<or> subpoint = Some [] \<or> subpoint = Some str_null
         \<or> subpoint = Some str_None
      then subpoint_absent s
      else s = subpoint)"

text \<open>\<^verbatim>\<open>validate_article_subpoint\<close>: the first matching row of each table
  (\<^verbatim>\<open>limit(1)\<close>). Executing a statement may raise; the handler of the function turns
  that into an invalid result.\<close>

definition validate_article_subpoint :: "world \<Rightarrow> int \<Rightarrow> ustr option \<Rightarrow> CriteriaValidationResult" where
  "validate_article_subpoint db article subpoint =
     (case db_failure db of
        Some e \<Rightarrow>
          \<lparr>is_valid = False, cv_article = article, cv_subpoint = subpoint,
           error_message = Some LookupFailed_error, categories = []\<rparr>
      | None \<Rightarrow>
          (let point_criterion =
                 find (\<lambda>c. pc_article c = article \<and> subpoint_clause subpoint (Some (pc_subpoint c)))
                   (point_criteria db);
               point_diagnosis =
                 find (\<lambda>d. pd_article d = article \<and> subpoint_clause subpoint (pd_subpoint d))
                   (points_diagnoses db)
           in if point_criterion = None \<and> point_diagnosis = None then
                \<lparr>is_valid = False, cv_article = article, cv_subpoint = subpoint,
                 error_message = Some (SubpointMissing_error subpoint article), categories = []\<rparr>
              else
                \<lparr>is_valid = True, cv_article = article, cv_subpoint = subpoint,
                 error_message = None,
                 categories =
                   (case point_diagnosis of
                      None \<Rightarrow> []
                    | Some d \<Rightarrow> [(1, pd_graph_1 d), (2, pd_graph_2 d),
                                 (3, pd_graph_3 d), (4, pd_graph_4 d)])\<rparr>))"

text \<open>The dictionary \<^verbatim>\<open>category_map\<close> of a row of Appendix 1, read with
  \<^verbatim>\<open>.get(graph)\<close>.\<close>

definition pd_graph :: "PointDiagnosis \<Rightarrow> int \<Rightarrow> ustr option" where
  "pd_graph d g =
     (if g = 1 then pd_graph_1 d else if g = 2 then pd_graph_2 d
      else if g = 3 then pd_graph_3 d else if g = 4 then pd_graph_4 d else None)"

text \<open>\<^verbatim>\<open>get_category_for_article_subpoint\<close>: one statement with the plain comparison
  (for a subpoint that is \<^verbatim>\<open>None\<close> the comparison is \<^verbatim>\<open>IS NULL\<close>), and
  \<^verbatim>\<open>scalar_one_or_none\<close>, which raises on more than one row; the handler returns
  \<^verbatim>\<open>None\<close>.\<close>

definition get_category_for_article_subpoint :: "world \<Rightarrow> int \<Rightarrow> ustr option \<Rightarrow> int \<Rightarrow> ustr option" where
  "get_category_for_article_subpoint db article subpoint g =
     (case db_failure db of
        Some e \<Rightarrow> None
      | None \<Rightarrow>
          (case filter (\<lambda>d. pd_article d = article \<and> pd_subpoint d = subpoint) (points_diagnoses db) of
             [d] \<Rightarrow> pd_graph d g
           | _ \<Rightarrow> None))"

section \<open>Stages 1 and 2: the analyzer\<close>

text \<open>
  The dictionary that \<^verbatim>\<open>determine_subpoint\<close> returns; a key that is absent is
  \<open>None\<close>. The keys \<^verbatim>\<open>model\<close>, \<^verbatim>\<open>validation_performed\<close> and \<^verbatim>\<open>tokens.total\<close> are
  those of its \<^verbatim>\<open>metadata\<close>.
\<close>

record clinical_result =
  cr_is_healthy :: "bool option"
  cr_article :: "int option"
  cr_subpoint :: "ustr option"
  cr_confidence :: "real option"
  cr_reasoning :: "ustr option"
  cr_matched_criteria :: "disease list option"
  cr_validation_performed :: "bool option"
  cr_model :: "ustr option"
  cr_tokens_total :: "nat option"

text \<open>The dictionary that \<^verbatim>\<open>determine_category\<close> returns.\<close>

record category_result =
  cat_category :: "ustr option"
  cat_source :: "ustr option"
  cat_all_categories :: "(int \<times> ustr option) list option"
  cat_reasoning :: "message option"

text \<open>
  The analyzer object: the classifier of Stage 1 (retrieval and completion behind it)
  and the resolver of Stage 2. Both are calls that may raise. The classifier takes
  the session, the text, the specialty, the ICD-10 codes, the article hint, the
  anamnesis, the complaints and the research results; the resolver the session, the
  article, the subpoint and the graph.
\<close>

record AIAnalyzer =
  determine_subpoint ::
    "world \<Rightarrow> ustr \<Rightarrow> ustr \<Rightarrow> ustr list option \<Rightarrow> int option \<Rightarrow> ustr option \<Rightarrow> ustr option
       \<Rightarrow> ustr option \<Rightarrow> exn + clinical_result"
  determine_category :: "world \<Rightarrow> int \<Rightarrow> ustr option \<Rightarrow> int \<Rightarrow> exn + category_result"

text \<open>
  Modelled from the spec: \<^verbatim>\<open>ai_analyzer.determine_category\<close> is not among the
  sources. The specification of the administrative resolver says: look up the
  reference row for (article, subpoint), the lookup tolerating a null or empty
  subpoint by matching rows whose subpoint is null or empty, and read the category for
  the record's graph. The lookup is the one of \<^verbatim>\<open>validate_article_subpoint\<close> above.
\<close>

definition determine_category_spec :: "world \<Rightarrow> int \<Rightarrow> ustr option \<Rightarrow> int \<Rightarrow> exn + category_result" where
  "determine_category_spec db article subpoint g =
     (let v = validate_article_subpoint db article subpoint
      in Inr \<lparr>cat_category = (case map_of (categories v) g of Some (Some c) \<Rightarrow> Some c | _ \<Rightarrow> None),
               cat_source = None,
               cat_all_categories = Some (categories v),
               cat_reasoning = error_message v\<rparr>)"

section \<open>The verdict\<close>

datatype OverallStatus = VALID | WARNING | INVALID

datatype MatchStatus = MATCH | MISMATCH | PARTIAL_MISMATCH | REVIEW_REQUIRED

datatype StageStatus = SUCCESS | STAGE_WARNING | ERROR | SKIPPED

datatype StageName = Clinical_validation | Administrative_check

record 'd ValidationStageResult =
  stage_name :: StageName
  stage_number :: nat
  passed :: bool
  status :: StageStatus
  details :: 'd
  duration_seconds :: "real option"
  stage_error_message :: "message option"

record stage_1_details =
  s1_article :: "int option"
  s1_subpoint :: "ustr option"
  s1_confidence :: real
  s1_is_healthy :: bool
  s1_reasoning :: "ustr option"
  s1_matched_criteria :: "disease list option"
  s1_validation_performed :: bool

record stage_2_details =
  s2_expected_category :: "ustr option"
  s2_doctor_category :: ustr
  s2_graph :: int
  s2_source :: "ustr option"
  s2_all_categories :: "(int \<times> ustr option) list option"
  s2_reasoning :: "message option"

text \<open>\<^verbatim>\<open>ContradictionDetail\<close>, the finding as the response carries it.\<close>

record ContradictionDetail =
  cd_type :: ContradictionType
  cd_severity :: Severity
  cd_description :: message
  cd_source_field :: "string option"
  cd_target_field :: "string option"
  cd_source_value :: "ustr option"
  cd_target_value :: "ustr option"
  cd_rag_matches :: "disease list"
  cd_recommendation :: "message option"

record response_metadata =
  md_model :: ustr
  total_duration_seconds :: real
  stage_0_duration_seconds :: real
  stage_1_duration_seconds :: real
  stage_2_duration_seconds :: real
  tokens_used :: nat
  md_graph :: int
  md_specialty :: ustr

text \<open>\<^verbatim>\<open>CheckDoctorConclusionResponse\<close>.\<close>

record verdict =
  overall_status :: OverallStatus
  risk_level :: Severity
  stage_0_contradictions :: "ContradictionDetail list"
  stage_1_clinical :: "stage_1_details ValidationStageResult"
  stage_2_administrative :: "stage_2_details ValidationStageResult"
  ai_recommended_article :: "int option"
  ai_recommended_subpoint :: "ustr option"
  ai_recommended_category :: "ustr option"
  ai_confidence :: real
  ai_reasoning :: ustr
  doctor_article :: "int option"
  doctor_subpoint :: "ustr option"
  v_doctor_category :: ustr
  category_match_status :: MatchStatus
  should_review :: bool
  review_reasons :: "message list"
  recommendations :: "message list"
  is_healthy :: bool
  metadata :: response_metadata

section \<open>Aggregation\<close>

text \<open>The keyword tables of \<^verbatim>\<open>_is_borderline_case\<close> (Cyrillic, lower case), for
  article 2 subpoint "3", article 2 subpoint "4" and article 1 subpoint "2".\<close>

definition borderline_2_3 :: "ustr list" where
  "borderline_2_3 =
     [[1090, 1091, 1073, 1077, 1088, 1082, 1091, 1083, 1077, 1079],
      [1090, 1091, 1073, 1077, 1088, 1082, 1091, 1083, 1105, 1079],
      [1086, 1089, 1090, 1072, 1090, 1086, 1095, 1085],
      [1087, 1086, 1089, 1090, 1090, 1091, 1073, 1077, 1088, 1082, 1091, 1083, 1077, 1079, 1085],
      [1080, 1079, 1083, 1077, 1095, 1077, 1085],
      [1074, 1099, 1083, 1077, 1095, 1077, 1085],
      [1087, 1086, 1089, 1083, 1077, 32, 1083, 1077, 1095, 1077, 1085, 1080, 1103]]"

definition borderline_2_4 :: "ustr list" where
  "borderline_2_4 =
     [[1084, 1072, 1083],
      [1086, 1089, 1090, 1072, 1090, 1086, 1095, 1085],
      [1077, 1076, 1080, 1085, 1080, 1095, 1085],
      [1086, 1095, 1072, 1075],
      [1087, 1077, 1090, 1088, 1080, 1092, 1080, 1082, 1072, 1090]]"

definition borderline_1_2 :: "ustr list" where
  "borderline_1_2 =
     [[1087, 1086, 1089, 1083, 1077],
      [1087, 1077, 1088, 1077, 1085, 1077, 1089],
      [1075, 1077, 1087, 1072, 1090, 1080, 1090],
      [1090, 1080, 1092]]"

definition is_borderline_case :: "int option \<Rightarrow> ustr option \<Rightarrow> ustr \<Rightarrow> bool" where
  "is_borderline_case article subpoint diagnosis =
     (let diagnosis_lower = py_lower diagnosis
      in if article = Some 2 \<and> subpoint = Some [51]
            \<and> (\<exists>kw \<in> set borderline_2_3. py_in kw diagnosis_lower) then True
         else if article = Some 2 \<and> subpoint = Some [52]
            \<and> (\<exists>kw \<in> set borderline_2_4. py_in kw diagnosis_lower) then True
         else if article = Some 1 \<and> subpoint = Some [50]
            \<and> (\<exists>kw \<in> set borderline_1_2. py_in kw diagnosis_lower) then True
         else False)"

definition determine_category_match_status ::
  "ustr \<Rightarrow> ustr option \<Rightarrow> bool \<Rightarrow> int option \<Rightarrow> ustr option \<Rightarrow> ustr \<Rightarrow> MatchStatus" where
  "determine_category_match_status doctor_cat ai_category healthy ai_article ai_subpoint diagnosis =
     (case ai_category of
        None \<Rightarrow>
          (let doctor_normalized = py_strip (py_upper doctor_cat)
           in if doctor_normalized \<in> set [cat_A_cyr, cat_A_lat] \<and> ai_article = None
                 \<and> ai_subpoint = None
              then MATCH else REVIEW_REQUIRED)
      | Some ai_cat \<Rightarrow>
          (let doctor_normalized = py_strip (py_upper doctor_cat);
               ai_normalized = py_strip (py_upper ai_cat)
           in if healthy then
                (if doctor_normalized \<in> set [cat_A_cyr, cat_A_lat] then MATCH else MISMATCH)
              else if doctor_normalized = ai_normalized then MATCH
              else if is_borderline_case ai_article ai_subpoint diagnosis then PARTIAL_MISMATCH
              else MISMATCH))"

definition calculate_overall_status ::
  "ContradictionResult list \<Rightarrow> MatchStatus \<Rightarrow> real \<Rightarrow> bool \<Rightarrow> OverallStatus \<times> Severity" where
  "calculate_overall_status contradictions match_status confidence healthy =
     (let has_any_contradiction = (\<exists>c \<in> set contradictions. has_contradiction c)
      in if match_status = MATCH \<and> \<not> has_any_contradiction then (VALID, LOW)
         else
           (let has_critical = (\<exists>c \<in> set contradictions. has_contradiction c \<and> severity c = CRITICAL);
                has_high = (\<exists>c \<in> set contradictions. has_contradiction c \<and> severity c = HIGH)
            in if has_critical then (INVALID, CRITICAL)
               else if match_status = MISMATCH then
                 (if has_high then (INVALID, HIGH) else (WARNING, HIGH))
               else if match_status = PARTIAL_MISMATCH then (WARNING, MEDIUM)
               else if has_any_contradiction then
                 (if has_high then (WARNING, HIGH) else (WARNING, MEDIUM))
               else if confidence < 1 / 2 \<and> \<not> healthy then (WARNING, MEDIUM)
               else if match_status = REVIEW_REQUIRED then (WARNING, MEDIUM)
               else if confidence \<ge> 7 / 10 \<or> healthy then (VALID, LOW)
               else (VALID, MEDIUM)))"

text \<open>\<^verbatim>\<open>_convert_contradictions\<close>. Building a \<^verbatim>\<open>RAGMatch\<close> validates that the
  similarity lies in [0, 1] and raises otherwise; the description is cut to 500 code
  points.\<close>

fun convert_matches :: "disease list \<Rightarrow> exn + disease list" where
  "convert_matches [] = Inr []"
| "convert_matches (m # ms) =
     (if 0 \<le> d_similarity m \<and> d_similarity m \<le> 1 then
        (case convert_matches ms of
           Inl e \<Rightarrow> Inl e
         | Inr ms' \<Rightarrow> Inr (m\<lparr>d_description := take 500 (d_description m)\<rparr> # ms'))
      else Inl ValidationError)"

fun convert_contradictions :: "ContradictionResult list \<Rightarrow> exn + ContradictionDetail list" where
  "convert_contradictions [] = Inr []"
| "convert_contradictions (c # cs) =
     (if \<not> has_contradiction c then convert_contradictions cs
      else
        (case convert_matches (rag_matches c) of
           Inl e \<Rightarrow> Inl e
         | Inr ms \<Rightarrow>
             (case contradiction_type c of
                None \<Rightarrow> Inl AttributeError
              | Some ty \<Rightarrow>
                  (case convert_contradictions cs of
                     Inl e \<Rightarrow> Inl e
                   | Inr ds \<Rightarrow>
                       Inr (\<lparr>cd_type = ty, cd_severity = severity c,
                             cd_description = description c,
                             cd_source_field = source_field c, cd_target_field = target_field c,
                             cd_source_value = source_value c, cd_target_value = target_value c,
                             cd_rag_matches = ms, cd_recommendation = recommendation c\<rparr> # ds)))))"

section \<open>The full validation\<close>

text \<open>The Cyrillic letter A as the category of a healthy conscript, and the source tag
  "HEALTHY_RULE" and the default model name "gpt-4o-mini".\<close>

definition str_HEALTHY_RULE :: ustr where
  "str_HEALTHY_RULE = [72, 69, 65, 76, 84, 72, 89, 95, 82, 85, 76, 69]"

definition str_default_model :: ustr where
  "str_default_model = [103, 112, 116, 45, 52, 111, 45, 109, 105, 110, 105]"

text \<open>
  Stage 2 of \<^verbatim>\<open>full_validation_with_contradiction_check\<close>: the category, the
  dictionary it came with, whether the stage passed, its status and the review reasons
  it adds. The call of the resolver is not guarded: when it raises, so does the stage.
\<close>

definition stage_2 ::
  "AIAnalyzer \<Rightarrow> world \<Rightarrow> bool \<Rightarrow> int option \<Rightarrow> ustr option \<Rightarrow> int
     \<Rightarrow> exn + (ustr option \<times> category_result \<times> bool \<times> StageStatus \<times> message list)" where
  "stage_2 ai db healthy ai_article ai_subpoint g =
     (if healthy then
        Inr (Some cat_A_cyr,
             \<lparr>cat_category = Some cat_A_cyr, cat_source = Some str_HEALTHY_RULE,
              cat_all_categories = None, cat_reasoning = Some HealthyRule_reasoning\<rparr>,
             True, SUCCESS, [])
      else
        (case ai_article of
           Some article \<Rightarrow>
             (if article \<noteq> 0 then
                (case determine_category ai db article ai_subpoint g of
                   Inl e \<Rightarrow> Inl e
                 | Inr category_result \<Rightarrow>
                     (let ai_category = cat_category category_result;
                          stage_2_passed = (ai_category \<noteq> None)
                      in Inr (ai_category, category_result, stage_2_passed,
                              (if stage_2_passed then SUCCESS else ERROR),
                              (if \<not> stage_2_passed
                               then [CategoryUndetermined_reason article ai_subpoint] else []))))
              else
                Inr (None,
                     \<lparr>cat_category = None, cat_source = None, cat_all_categories = None,
                      cat_reasoning = Some StageSkipped_reasoning\<rparr>,
                     False, SKIPPED, []))
         | None \<Rightarrow>
             Inr (None,
                  \<lparr>cat_category = None, cat_source = None, cat_all_categories = None,
                   cat_reasoning = Some StageSkipped_reasoning\<rparr>,
                  False, SKIPPED, [])))"

text \<open>The review reasons and recommendations that the category comparison adds.\<close>

definition match_reasons :: "MatchStatus \<Rightarrow> ustr \<Rightarrow> ustr option \<Rightarrow> message list" where
  "match_reasons match_status doctor_cat ai_category =
     (if match_status = MISMATCH then [Mismatch_reason doctor_cat ai_category]
      else if match_status = PARTIAL_MISMATCH then [PartialMismatch_reason doctor_cat ai_category]
      else [])"

definition match_recommendations :: "MatchStatus \<Rightarrow> int option \<Rightarrow> ustr option \<Rightarrow> message list" where
  "match_recommendations match_status ai_article ai_subpoint =
     (if match_status = MISMATCH then
        [Mismatch_recommendation (if ai_article = Some 0 then None else ai_article)]
      else if match_status = PARTIAL_MISMATCH then
        [PartialMismatch_recommendation ai_article ai_subpoint]
      else [])"

text \<open>The text that Stage 1 analyses (the full conclusion if there is one, else the
  diagnosis), and the reads of the classifier's dictionary with their defaults.\<close>

definition analysis_text :: "examination \<Rightarrow> ustr" where
  "analysis_text r =
     (case conclusion_text r of
        None \<Rightarrow> diagnosis_text r
      | Some t \<Rightarrow> if t \<noteq> [] then t else diagnosis_text r)"

definition get_is_healthy :: "clinical_result \<Rightarrow> bool" where
  "get_is_healthy clinical = (case cr_is_healthy clinical of None \<Rightarrow> False | Some b \<Rightarrow> b)"

definition get_confidence :: "clinical_result \<Rightarrow> real" where
  "get_confidence clinical = (case cr_confidence clinical of None \<Rightarrow> 0 | Some c \<Rightarrow> c)"

text \<open>
  \<^verbatim>\<open>full_validation_with_contradiction_check\<close>. The eight readings of
  \<^verbatim>\<open>datetime.now()\<close> are \<open>clock 0\<close> .. \<open>clock 7\<close>, in the order of the calls. The
  block that saves the result is enclosed in its own handler and writes only the table
  of saved analyses, which no stage reads; it does not appear here. Building the
  response validates that the confidence lies in [0, 1].
\<close>

definition full_validation_with_contradiction_check ::
  "ContradictionChecker \<Rightarrow> AIAnalyzer \<Rightarrow> world \<Rightarrow> (nat \<Rightarrow> real) \<Rightarrow> examination \<Rightarrow> exn + verdict" where
  "full_validation_with_contradiction_check checker ai db clock r =
     (let total_start_time = clock 0;
          stage_0_start = clock 1;
          contradictions = check_for_contradictions checker db r;
          stage_0_duration = clock 2 - stage_0_start
      in case convert_contradictions contradictions of
           Inl e \<Rightarrow> Inl e
         | Inr stage_0 \<Rightarrow>
      (let found = filter has_contradiction contradictions;
           review_reasons_0 = map description found;
           recommendations_0 = List.map_filter recommendation found;
           stage_1_start = clock 3
       in case determine_subpoint ai db (analysis_text r) (specialty r) (icd10_codes r)
                 (article_hint r) (anamnesis r) (complaints r) (special_research_results r) of
            Inl e \<Rightarrow> Inl e
          | Inr clinical \<Rightarrow>
      (let stage_1_duration = clock 4 - stage_1_start;
           healthy = get_is_healthy clinical;
           ai_article = cr_article clinical;
           ai_subpoint = cr_subpoint clinical;
           confidence = get_confidence clinical;
           reasoning = (case cr_reasoning clinical of None \<Rightarrow> [] | Some t \<Rightarrow> t);
           stage_1_passed = (confidence \<ge> 1 / 2 \<or> healthy);
           review_reasons_1 =
             review_reasons_0
             @ (if \<not> stage_1_passed \<and> \<not> healthy then [LowConfidence_reason confidence] else []);
           stage_1 =
             \<lparr>stage_name = Clinical_validation, stage_number = 1, passed = stage_1_passed,
              status = (if stage_1_passed then SUCCESS else STAGE_WARNING),
              details =
                \<lparr>s1_article = ai_article, s1_subpoint = ai_subpoint,
                 s1_confidence = confidence, s1_is_healthy = healthy,
                 s1_reasoning = (if reasoning \<noteq> [] then Some (take 500 reasoning) else None),
                 s1_matched_criteria = cr_matched_criteria clinical,
                 s1_validation_performed =
                   (case cr_validation_performed clinical of None \<Rightarrow> False | Some b \<Rightarrow> b)\<rparr>,
              duration_seconds = Some stage_1_duration, stage_error_message = None\<rparr>;
           stage_2_start = clock 5
       in case stage_2 ai db healthy ai_article ai_subpoint (graph r) of
            Inl e \<Rightarrow> Inl e
          | Inr (ai_category, category_result, stage_2_passed, stage_2_status, reasons_2) \<Rightarrow>
      (let review_reasons_2 = review_reasons_1 @ reasons_2;
           stage_2_duration = clock 6 - stage_2_start;
           stage_2_administrative' =
             \<lparr>stage_name = Administrative_check, stage_number = 2, passed = stage_2_passed,
              status = stage_2_status,
              details =
                \<lparr>s2_expected_category = ai_category, s2_doctor_category = doctor_category r,
                 s2_graph = graph r, s2_source = cat_source category_result,
                 s2_all_categories = cat_all_categories category_result,
                 s2_reasoning = cat_reasoning category_result\<rparr>,
              duration_seconds = Some stage_2_duration, stage_error_message = None\<rparr>;
           total_duration = clock 7 - total_start_time;
           match_status =
             determine_category_match_status (doctor_category r) ai_category healthy
               ai_article ai_subpoint (diagnosis_text r);
           review_reasons' = review_reasons_2 @ match_reasons match_status (doctor_category r) ai_category;
           recommendations' = recommendations_0 @ match_recommendations match_status ai_article ai_subpoint
       in case calculate_overall_status contradictions match_status confidence healthy of
            (overall, risk) \<Rightarrow>
      (let should_review' =
             (overall \<noteq> VALID \<or> length review_reasons' > 0 \<or> risk \<in> set [HIGH, CRITICAL])
       in if 0 \<le> confidence \<and> confidence \<le> 1 then
            Inr \<lparr>overall_status = overall, risk_level = risk,
                 stage_0_contradictions = stage_0,
                 stage_1_clinical = stage_1,
                 stage_2_administrative = stage_2_administrative',
                 ai_recommended_article = ai_article,
                 ai_recommended_subpoint = ai_subpoint,
                 ai_recommended_category = ai_category,
                 ai_confidence = confidence,
                 ai_reasoning = reasoning,
                 doctor_article = article_hint r,
                 doctor_subpoint = subpoint_hint r,
                 v_doctor_category = doctor_category r,
                 category_match_status = match_status,
                 should_review = should_review',
                 review_reasons = review_reasons',
                 recommendations = recommendations',
                 is_healthy = healthy,
                 metadata =
                   \<lparr>md_model = (case cr_model clinical of None \<Rightarrow> str_default_model | Some m \<Rightarrow> m),
                    total_duration_seconds = total_duration,
                    stage_0_duration_seconds = stage_0_duration,
                    stage_1_duration_seconds = stage_1_duration,
                    stage_2_duration_seconds = stage_2_duration,
                    tokens_used = (case cr_tokens_total clinical of None \<Rightarrow> 0 | Some n \<Rightarrow> n),
                    md_graph = graph r, md_specialty = specialty r\<rparr>\<rparr>
          else Inl ValidationError)))))"

text \<open>The route \<^verbatim>\<open>/check-doctor-conclusion\<close>: any exception of the service becomes an
  HTTP error with status 500.\<close>

definition check_doctor_conclusion ::
  "ContradictionChecker \<Rightarrow> AIAnalyzer \<Rightarrow> world \<Rightarrow> (nat \<Rightarrow> real) \<Rightarrow> examination \<Rightarrow> exn + verdict" where
  "check_doctor_conclusion checker ai db clock request =
     (case full_validation_with_contradiction_check checker ai db clock request of
        Inl e \<Rightarrow> Inl (HTTPException 500)
      | Inr result \<Rightarrow> Inr result)"

text \<open>A verdict with its duration fields blanked.\<close>

definition without_durations :: "verdict \<Rightarrow> verdict" where
  "without_durations v =
     v\<lparr>stage_1_clinical := (stage_1_clinical v)\<lparr>duration_seconds := None\<rparr>,
       stage_2_administrative := (stage_2_administrative v)\<lparr>duration_seconds := None\<rparr>,
       metadata := (metadata v)\<lparr>total_duration_seconds := 0, stage_0_duration_seconds := 0,
                                stage_1_duration_seconds := 0, stage_2_duration_seconds := 0\<rparr>\<rparr>"

text \<open>A similarity that the response schema accepts, and a store whose distances are
  not negative for whatever the embedding capability returns.\<close>

definition unit_similarity :: "disease \<Rightarrow> bool" where
  "unit_similarity m = (0 \<le> d_similarity m \<and> d_similarity m \<le> 1)"

definition retrieval_sane :: "world \<Rightarrow> bool" where
  "retrieval_sane db =
     (\<forall>t q. create_embedding db t = Inr q \<longrightarrow> db_failure db = None \<longrightarrow> nonneg_distances db q)"


text \<open>What a check decided: whether it fired, and how severe the finding is. And a
  match with its categories for the graphs 2, 3 and 4 blanked.\<close>

definition outcome :: "ContradictionResult \<Rightarrow> bool \<times> Severity" where
  "outcome res = (has_contradiction res, severity res)"

definition graph_1_only :: "disease \<Rightarrow> disease" where
  "graph_1_only d = d\<lparr>d_graph_2 := None, d_graph_3 := None, d_graph_4 := None\<rparr>"

section \<open>Example data\<close>

text \<open>A small vocabulary (the Russian stems for "healthy", "illness" and
  "tuberculosis"), a reference store of three criteria with two-dimensional
  embeddings, and a few examinations.\<close>

definition checker0 :: ContradictionChecker where
  "checker0 =
     \<lparr>healthy_keywords = [[1079, 1076, 1086, 1088, 1086, 1074]],
      pathology_keywords = [[1073, 1086, 1083, 1077, 1079, 1085]],
      severe_keywords = [[1090, 1091, 1073, 1077, 1088, 1082, 1091, 1083, 1077, 1079]]\<rparr>"

definition criterion_tb :: PointCriterion where
  "criterion_tb =
     \<lparr>pc_article = 2, pc_subpoint = [49], pc_description = [],
      pc_graph_1 = Some [1045], pc_graph_2 = Some [1045], pc_graph_3 = Some [1045],
      pc_graph_4 = Some [1053, 1043], criteria_embedding = Some [4 / 5, 3 / 5]\<rparr>"

definition criterion_far :: PointCriterion where
  "criterion_far =
     \<lparr>pc_article = 43, pc_subpoint = [51], pc_description = [],
      pc_graph_1 = Some [1044], pc_graph_2 = Some [1044],
      pc_graph_3 = Some [1042, 45, 1048, 1053, 1044],
      pc_graph_4 = Some [1053, 1043], criteria_embedding = Some [- 1, 0]\<rparr>"

definition criterion_blank :: PointCriterion where
  "criterion_blank =
     \<lparr>pc_article = 88, pc_subpoint = [], pc_description = [],
      pc_graph_1 = Some [], pc_graph_2 = None, pc_graph_3 = None,
      pc_graph_4 = None, criteria_embedding = None\<rparr>"

definition diagnosis_row_88 :: PointDiagnosis where
  "diagnosis_row_88 =
     \<lparr>pd_article = 88, pd_subpoint = None, pd_graph_1 = Some [1042],
      pd_graph_2 = Some [1042], pd_graph_3 = Some [1043], pd_graph_4 = None\<rparr>"

definition diagnosis_row_2_1 :: PointDiagnosis where
  "diagnosis_row_2_1 =
     \<lparr>pd_article = 2, pd_subpoint = Some [49], pd_graph_1 = Some [1045],
      pd_graph_2 = Some [1045], pd_graph_3 = Some [1045], pd_graph_4 = Some [1053, 1043]\<rparr>"

definition world0 :: world where
  "world0 =
     \<lparr>create_embedding = (\<lambda>t. Inr [1, 0]),
      cosine_distance = vector_cosine_distance,
      point_criteria = [criterion_far, criterion_blank, criterion_tb],
      points_diagnoses = [diagnosis_row_88, diagnosis_row_2_1],
      db_failure = None\<rparr>"

text \<open>The same store behind an embedding capability that is down.\<close>

definition world_down :: world where
  "world_down = world0\<lparr>create_embedding := (\<lambda>t. Inl EmbeddingError)\<rparr>"

text \<open>A store whose only criterion has the empty string as its graph-1 category.\<close>

definition world_blank :: world where
  "world_blank =
     world0\<lparr>point_criteria := [criterion_tb\<lparr>pc_graph_1 := Some []\<rparr>]\<rparr>"

text \<open>"Zdorov, patologii ne vyyavleny" (healthy, no pathology found) and
  "Tuberkulez legkikh, aktivnaya forma" (pulmonary tuberculosis, active form).\<close>

definition text_healthy :: ustr where
  "text_healthy =
     [1047, 1076, 1086, 1088, 1086, 1074, 44, 32, 1087, 1072, 1090, 1086, 1083, 1086,
       1075, 1080, 1080, 32, 1085, 1077, 32, 1074, 1099, 1103, 1074, 1083, 1077, 1085,
       1099]"

definition text_tb :: ustr where
  "text_tb =
     [1058, 1091, 1073, 1077, 1088, 1082, 1091, 1083, 1077, 1079, 32, 1083, 1077, 1075,
       1082, 1080, 1093, 44, 32, 1072, 1082, 1090, 1080, 1074, 1085, 1072, 1103, 32,
       1092, 1086, 1088, 1084, 1072]"



definition blank_examination :: examination where
  "blank_examination =
     \<lparr>diagnosis_text = [], doctor_category = [], specialty = [], anamnesis = None,
      complaints = None, objective_data = None, special_research_results = None,
      conclusion_text = None, doctor_notes = None, icd10_codes = None,
      article_hint = None, subpoint_hint = None, graph = 1\<rparr>"

text \<open>Healthy text with category B; tuberculosis with category A; tuberculosis with
  category E (Cyrillic letters).\<close>

definition exam_healthy_B :: examination where
  "exam_healthy_B = blank_examination\<lparr>diagnosis_text := text_healthy, doctor_category := [1041]\<rparr>"

definition exam_tb_A :: examination where
  "exam_tb_A = blank_examination\<lparr>diagnosis_text := text_tb, doctor_category := [1040]\<rparr>"

definition exam_tb_E :: examination where
  "exam_tb_E = blank_examination\<lparr>diagnosis_text := text_tb, doctor_category := [1045]\<rparr>"



text \<open>An analyzer whose classifier always answers article 2, subpoint "1", with
  confidence 0.9, and whose resolver is the lookup above; and one whose classifier
  raises.\<close>

definition clinical0 :: clinical_result where
  "clinical0 =
     \<lparr>cr_is_healthy = Some False, cr_article = Some 2, cr_subpoint = Some [49],
      cr_confidence = Some (9 / 10), cr_reasoning = Some [], cr_matched_criteria = None,
      cr_validation_performed = Some True, cr_model = None, cr_tokens_total = Some 0\<rparr>"

definition analyzer0 :: AIAnalyzer where
  "analyzer0 =
     \<lparr>determine_subpoint = (\<lambda>db t sp icd hint an co re. Inr clinical0),
      determine_category = determine_category_spec\<rparr>"

definition analyzer_down :: AIAnalyzer where
  "analyzer_down = analyzer0\<lparr>determine_subpoint := (\<lambda>db t sp icd hint an co re. Inl CompletionError)\<rparr>"

definition clock0 :: "nat \<Rightarrow> real" where
  "clock0 n = real n"

text \<open>"Gipertonicheskaya bolezn' 2 stepeni" (hypertension, stage 2); an embedding
  capability that places the tuberculosis text near the tuberculosis criterion and
  every other text near the other one; and an examination whose diagnosis is
  hypertension (category D) while the anamnesis speaks of tuberculosis.\<close>

definition text_hyp :: ustr where
  "text_hyp =
     [1043, 1080, 1087, 1077, 1088, 1090, 1086, 1085, 1080, 1095, 1077, 1089, 1082,
      1072, 1103, 32, 1073, 1086, 1083, 1077, 1079, 1085, 1100, 32, 50, 32, 1089, 1090,
      1077, 1087, 1077, 1085, 1080]"

definition world_c :: world where
  "world_c = world0\<lparr>create_embedding := (\<lambda>t. if t = text_tb then Inr [1, 0] else Inr [- 1, 0])\<rparr>"

definition exam_c :: examination where
  "exam_c =
     blank_examination\<lparr>diagnosis_text := text_hyp, doctor_category := [1044],
                        anamnesis := Some text_tb\<rparr>"

text \<open>An analyzer whose classifier answers article 88 with the empty string as
  subpoint, and an examination with category V.\<close>

definition analyzer_88 :: AIAnalyzer where
  "analyzer_88 =
     analyzer0\<lparr>determine_subpoint :=
       (\<lambda>db t sp icd hint an co re.
          Inr (clinical0\<lparr>cr_article := Some 88, cr_subpoint := Some []\<rparr>))\<rparr>"

definition exam_88 :: examination where
  "exam_88 = blank_examination\<lparr>diagnosis_text := text_hyp, doctor_category := [1042]\<rparr>"

section \<open>Facts about the text primitives\<close>








section \<open>Each check produces findings of its own type only\<close>


lemma check_type_e_kind:
  "has_contradiction (check_type_e self d c) \<Longrightarrow>
     contradiction_type (check_type_e self d c) = Some TYPE_E \<and> severity (check_type_e self d c) = HIGH"
  by (simp add: check_type_e_def Let_def no_contradiction_def split: if_splits)

lemma check_type_f_kind:
  "has_contradiction (check_type_f self d c) \<Longrightarrow>
     contradiction_type (check_type_f self d c) = Some TYPE_F \<and> severity (check_type_f self d c) = CRITICAL"
  by (simp add: check_type_f_def Let_def no_contradiction_def split: if_splits prod.splits)

lemma type_a_loop_kind:
  "has_contradiction (type_a_loop self db d fs) \<Longrightarrow>
     contradiction_type (type_a_loop self db d fs) = Some TYPE_A"
  by (induction fs) (auto simp: Let_def no_contradiction_def split: if_splits)

lemma check_type_a_kind:
  "has_contradiction (check_type_a self db d fs) \<Longrightarrow>
     contradiction_type (check_type_a self db d fs) = Some TYPE_A"
  by (simp add: check_type_a_def type_a_loop_kind no_contradiction_def split: if_splits)

lemma type_b_loop_kind:
  "has_contradiction (type_b_loop self d fs) \<Longrightarrow>
     contradiction_type (type_b_loop self d fs) = Some TYPE_B"
  by (induction fs) (auto simp: Let_def no_contradiction_def split: if_splits)

lemma check_type_b_kind:
  "has_contradiction (check_type_b self d fs) \<Longrightarrow>
     contradiction_type (check_type_b self d fs) = Some TYPE_B"
  by (simp add: check_type_b_def type_b_loop_kind no_contradiction_def split: if_splits)

lemma type_c_diseases_kind:
  "type_c_diseases dd d fname fval ds = Some res \<Longrightarrow>
     has_contradiction res \<and> contradiction_type res = Some TYPE_C"
  by (induction ds) (auto simp: Let_def split: if_splits)

lemma type_c_fields_kind:
  "has_contradiction (type_c_fields self db dd d fs) \<Longrightarrow>
     contradiction_type (type_c_fields self db dd d fs) = Some TYPE_C"
  by (induction fs)
     (auto simp: Let_def no_contradiction_def type_c_diseases_kind split: if_splits option.splits)

lemma check_type_c_kind:
  "has_contradiction (check_type_c self db d fs) \<Longrightarrow>
     contradiction_type (check_type_c self db d fs) = Some TYPE_C"
  by (simp add: check_type_c_def type_c_fields_kind no_contradiction_def split: if_splits list.splits)

lemma check_type_d_kind:
  "has_contradiction (check_type_d self db d c g) \<Longrightarrow>
     contradiction_type (check_type_d self db d c g) = Some TYPE_D"
  by (auto simp: check_type_d_def Let_def no_contradiction_def
           split: if_splits list.splits option.splits)

lemma findings_set:
  "set (check_for_contradictions self db r) =
     {x \<in> {check_type_e self (diagnosis_text r) (doctor_category r),
            check_type_f self (diagnosis_text r) (doctor_category r),
            check_type_a self db (diagnosis_text r) (record_fields r),
            check_type_b self (diagnosis_text r) (record_fields r),
            check_type_c self db (diagnosis_text r) (record_fields r),
            check_type_d self db (diagnosis_text r) (doctor_category r) (graph r)}.
      has_contradiction x}"
  unfolding check_for_contradictions_def Let_def append_if_def
  by (simp only: set_append) (auto split: if_splits)



lemma type_c_findings:
  "(\<exists>f \<in> set (check_for_contradictions self db r). contradiction_type f = Some TYPE_C \<and> P f) \<longleftrightarrow>
     has_contradiction (check_type_c self db (diagnosis_text r) (record_fields r))
     \<and> P (check_type_c self db (diagnosis_text r) (record_fields r))"
  using check_type_e_kind[of self "diagnosis_text r" "doctor_category r"]
    check_type_f_kind[of self "diagnosis_text r" "doctor_category r"]
    check_type_a_kind[of self db "diagnosis_text r" "record_fields r"]
    check_type_b_kind[of self "diagnosis_text r" "record_fields r"]
    check_type_c_kind[of self db "diagnosis_text r" "record_fields r"]
    check_type_d_kind[of self db "diagnosis_text r" "doctor_category r" "graph r"]
  unfolding findings_set by auto

lemma type_d_findings:
  "(\<exists>f \<in> set (check_for_contradictions self db r). contradiction_type f = Some TYPE_D \<and> P f) \<longleftrightarrow>
     has_contradiction (check_type_d self db (diagnosis_text r) (doctor_category r) (graph r))
     \<and> P (check_type_d self db (diagnosis_text r) (doctor_category r) (graph r))"
  using check_type_e_kind[of self "diagnosis_text r" "doctor_category r"]
    check_type_f_kind[of self "diagnosis_text r" "doctor_category r"]
    check_type_a_kind[of self db "diagnosis_text r" "record_fields r"]
    check_type_b_kind[of self "diagnosis_text r" "record_fields r"]
    check_type_c_kind[of self db "diagnosis_text r" "record_fields r"]
    check_type_d_kind[of self db "diagnosis_text r" "doctor_category r" "graph r"]
  unfolding findings_set by auto






section \<open>Facts about retrieval\<close>

lemma round_half_even_bounds:
  "\<lfloor>x\<rfloor> \<le> round_half_even x \<and> round_half_even x \<le> \<lfloor>x\<rfloor> + 1"
  by (simp add: round_half_even_def Let_def)

lemma round_half_even_mono:
  assumes "x \<le> y"
  shows "round_half_even x \<le> round_half_even y"
proof (cases "\<lfloor>x\<rfloor> = \<lfloor>y\<rfloor>")
  case True
  from assms True have "x - of_int \<lfloor>x\<rfloor> \<le> y - of_int \<lfloor>y\<rfloor>" by simp
  with True show ?thesis
    by (auto simp: round_half_even_def Let_def)
next
  case False
  with floor_mono[OF assms] have "\<lfloor>x\<rfloor> + 1 \<le> \<lfloor>y\<rfloor>" by linarith
  with round_half_even_bounds[of x] round_half_even_bounds[of y] show ?thesis
    by linarith
qed

lemma py_round4_mono: "x \<le> y \<Longrightarrow> py_round4 x \<le> py_round4 y"
  using round_half_even_mono[of "x * 10000" "y * 10000"]
  by (simp add: py_round4_def divide_right_mono)

lemma py_round4_0: "py_round4 0 = 0"
  by (simp add: py_round4_def round_half_even_def)

lemma py_round4_1: "py_round4 1 = 1"
  by (simp add: py_round4_def round_half_even_def)

lemma py_round4_unit: "0 \<le> x \<Longrightarrow> x \<le> 1 \<Longrightarrow> 0 \<le> py_round4 x \<and> py_round4 x \<le> 1"
  using py_round4_mono[of 0 x] py_round4_mono[of x 1] by (simp add: py_round4_0 py_round4_1)

lemma format_rows_eq:
  "format_rows thr rows =
     map (\<lambda>(criterion, distance).
            \<lparr>d_article = pc_article criterion, d_subpoint = pc_subpoint criterion,
             d_description = pc_description criterion, d_similarity = py_round4 (1 - distance),
             d_graph_1 = pc_graph_1 criterion, d_graph_2 = pc_graph_2 criterion,
             d_graph_3 = pc_graph_3 criterion, d_graph_4 = pc_graph_4 criterion\<rparr>)
         (filter (\<lambda>(criterion, distance). \<not> 1 - distance < thr) rows)"
  by (induction thr rows rule: format_rows.induct) (auto simp: Let_def)

lemma format_rows_similarity:
  "d \<in> set (format_rows thr rows) \<Longrightarrow>
     \<exists>c dist. (c, dist) \<in> set rows \<and> d_similarity d = py_round4 (1 - dist) \<and> thr \<le> 1 - dist"
  by (auto simp: format_rows_eq not_less) blast

lemma format_rows_sorted:
  "sorted (map snd rows) \<Longrightarrow>
     sorted_wrt (\<lambda>a b. d_similarity b \<le> d_similarity a) (format_rows thr rows)"
proof (induction thr rows rule: format_rows.induct)
  case (1 thr)
  then show ?case by simp
next
  case (2 thr criterion distance rows)
  have later: "d_similarity d \<le> py_round4 (1 - distance)" if "d \<in> set (format_rows thr rows)" for d
  proof -
    from format_rows_similarity[OF that] obtain c dist
      where m: "(c, dist) \<in> set rows" and s: "d_similarity d = py_round4 (1 - dist)" by blast
    from m "2.prems" have "distance \<le> dist" by force
    then show ?thesis unfolding s by (intro py_round4_mono) simp
  qed
  from "2.prems" have "sorted (map snd rows)" by simp
  with 2 later show ?case by (auto simp: Let_def)
qed

lemma nearest_criteria_rows:
  assumes "nearest_criteria db q k = Inr rows"
  shows "sorted (map snd rows)
     \<and> (\<forall>(c, dist) \<in> set rows. c \<in> set (point_criteria db)
           \<and> (\<exists>e. criteria_embedding c = Some e \<and> dist = cosine_distance db e q))
     \<and> rows = take (nat k) (sort_key snd
          (List.map_filter (with_distance db q) (point_criteria db)))"
proof -
  let ?all = "List.map_filter (with_distance db q) (point_criteria db)"
  from assms have r: "rows = take (nat k) (sort_key snd ?all)"
    by (auto simp: nearest_criteria_def split: option.splits if_splits)
  have "sorted (map snd (sort_key snd ?all))" by (rule sorted_sort_key)
  then have s: "sorted (map snd rows)"
    unfolding r by (simp add: take_map[symmetric] sorted_wrt_take)
  have "set rows \<subseteq> set ?all" unfolding r
    using set_take_subset[of "nat k" "sort_key snd ?all"] by simp
  moreover have "\<forall>(c, dist) \<in> set ?all. c \<in> set (point_criteria db)
           \<and> (\<exists>e. criteria_embedding c = Some e \<and> dist = cosine_distance db e q)"
    by (auto simp: List.map_filter_def with_distance_def split: option.splits)
  ultimately show ?thesis using s r by blast
qed

lemma search_cases:
  "search_diseases_in_text db t k thr = [] \<or>
   (10 \<le> length (py_strip t) \<and>
    (\<exists>q rows. create_embedding db t = Inr q \<and> nearest_criteria db q k = Inr rows
       \<and> search_diseases_in_text db t k thr = format_rows thr rows))"
  by (auto simp: search_diseases_in_text_def split: sum.splits)

lemma search_sorted:
  "sorted_wrt (\<lambda>a b. d_similarity b \<le> d_similarity a) (search_diseases_in_text db t k thr)"
  using search_cases[of db t k thr] nearest_criteria_rows format_rows_sorted
  by (metis sorted_wrt.simps(1))

lemma search_similarity_range:
  assumes "d \<in> set (search_diseases_in_text db t k thr)"
  shows "py_round4 thr \<le> d_similarity d"
    and "(\<forall>q. create_embedding db t = Inr q \<longrightarrow> nonneg_distances db q) \<Longrightarrow> d_similarity d \<le> 1"
proof -
  from assms search_cases[of db t k thr] obtain q rows
    where em: "create_embedding db t = Inr q"
      and n: "nearest_criteria db q k = Inr rows"
      and f: "search_diseases_in_text db t k thr = format_rows thr rows"
    by auto
  from assms f format_rows_similarity obtain c dist
    where m: "(c, dist) \<in> set rows" and s: "d_similarity d = py_round4 (1 - dist)"
      and th: "thr \<le> 1 - dist" by metis
  from th show "py_round4 thr \<le> d_similarity d" unfolding s by (rule py_round4_mono)
  assume "\<forall>q. create_embedding db t = Inr q \<longrightarrow> nonneg_distances db q"
  with em have nn: "nonneg_distances db q" by blast
  from nearest_criteria_rows[OF n] m obtain e where "c \<in> set (point_criteria db)"
    "criteria_embedding c = Some e" "dist = cosine_distance db e q" by auto
  with nn have "0 \<le> dist" by (auto simp: nonneg_distances_def)
  then have "py_round4 (1 - dist) \<le> py_round4 1" by (intro py_round4_mono) simp
  then show "d_similarity d \<le> 1" unfolding s by (simp add: py_round4_1)
qed

section \<open>Checks over a retrieval that finds nothing\<close>

lemma type_a_loop_silent:
  "(\<And>t k thr. search_diseases_in_text db t k thr = []) \<Longrightarrow>
     type_a_loop self db d fs = no_contradiction"
  by (induction fs) (auto simp: Let_def)

lemma type_c_fields_silent:
  "(\<And>t k thr. search_diseases_in_text db t k thr = []) \<Longrightarrow>
     type_c_fields self db dd d fs = no_contradiction"
  by (induction fs) (auto simp: Let_def)

lemma checks_silent:
  assumes "\<And>t k thr. search_diseases_in_text db t k thr = []"
  shows "check_type_a self db d fs = no_contradiction"
    and "check_type_c self db d fs = no_contradiction"
    and "check_type_d self db d c g = no_contradiction"
  using assms
  by (simp_all add: check_type_a_def check_type_c_def check_type_d_def type_a_loop_silent)

lemma findings_silent:
  assumes "\<And>t k thr. search_diseases_in_text db t k thr = []"
  shows "check_for_contradictions self db r =
           append_if (check_type_e self (diagnosis_text r) (doctor_category r))
           @ append_if (check_type_f self (diagnosis_text r) (doctor_category r))
           @ append_if (check_type_b self (diagnosis_text r) (record_fields r))"
  by (simp add: check_for_contradictions_def Let_def checks_silent[OF assms] append_if_def
        no_contradiction_def)

lemma search_fails_call:
  assumes "isl (create_embedding db t) \<or> db_failure db \<noteq> None"
  shows "search_diseases_in_text db t k thr = []"
proof (cases "isl (create_embedding db t)")
  case True
  then obtain e where "create_embedding db t = Inl e" by (auto simp: isl_def)
  then show ?thesis by (simp add: search_diseases_in_text_def)
next
  case False
  with assms have "db_failure db \<noteq> None" by blast
  then show ?thesis
    by (auto simp: search_diseases_in_text_def nearest_criteria_def split: sum.splits)
qed

lemma search_fails:
  assumes "(\<forall>t. isl (create_embedding db t)) \<or> db_failure db \<noteq> None"
  shows "search_diseases_in_text db t k thr = []"
  using assms by (intro search_fails_call) blast


lemma check_type_e_rag: "rag_matches (check_type_e self d c) = []"
  by (simp add: check_type_e_def Let_def no_contradiction_def)

lemma check_type_f_rag: "rag_matches (check_type_f self d c) = []"
  by (simp add: check_type_f_def Let_def no_contradiction_def split: prod.splits)

lemma type_b_loop_rag: "rag_matches (type_b_loop self d fs) = []"
  by (induction fs) (auto simp: no_contradiction_def)

lemma check_type_b_rag: "rag_matches (check_type_b self d fs) = []"
  by (simp add: check_type_b_def type_b_loop_rag no_contradiction_def)

section \<open>Type C findings\<close>

lemma filter_append_if:
  "filter (\<lambda>f. contradiction_type f = Some k) (append_if x) =
     (if has_contradiction x \<and> contradiction_type x = Some k then [x] else [])"
  by (cases "has_contradiction x") (simp_all add: append_if_def)

lemma type_c_only:
  "filter (\<lambda>f. contradiction_type f = Some TYPE_C) (check_for_contradictions self db r)
     = append_if (check_type_c self db (diagnosis_text r) (record_fields r))"
  using check_type_e_kind[of self "diagnosis_text r" "doctor_category r"]
    check_type_f_kind[of self "diagnosis_text r" "doctor_category r"]
    check_type_a_kind[of self db "diagnosis_text r" "record_fields r"]
    check_type_b_kind[of self "diagnosis_text r" "record_fields r"]
    check_type_c_kind[of self db "diagnosis_text r" "record_fields r"]
    check_type_d_kind[of self db "diagnosis_text r" "doctor_category r" "graph r"]
  by (auto simp: check_for_contradictions_def Let_def filter_append_if append_if_def)

lemma type_c_diseases_graph_1:
  "map_option outcome (type_c_diseases dd t fname fval ds)
     = map_option outcome (type_c_diseases (graph_1_only dd) t fname fval (map graph_1_only ds))"
  by (induction ds) (auto simp: Let_def outcome_def graph_1_only_def categories_get_def)

section \<open>The shape of a returned verdict\<close>

lemma verdict_stage_2:
  assumes "full_validation_with_contradiction_check checker ai db clock r = Inr v"
  shows "\<exists>cl cres rs.
      determine_subpoint ai db (analysis_text r) (specialty r) (icd10_codes r)
          (article_hint r) (anamnesis r) (complaints r) (special_research_results r) = Inr cl
      \<and> is_healthy v = get_is_healthy cl
      \<and> ai_recommended_article v = cr_article cl
      \<and> ai_recommended_subpoint v = cr_subpoint cl
      \<and> ai_confidence v = get_confidence cl
      \<and> stage_2 ai db (is_healthy v) (ai_recommended_article v) (ai_recommended_subpoint v) (graph r)
           = Inr (ai_recommended_category v, cres, passed (stage_2_administrative v),
                  status (stage_2_administrative v), rs)
      \<and> set rs \<subseteq> set (review_reasons v)
      \<and> s2_expected_category (details (stage_2_administrative v)) = ai_recommended_category v
      \<and> stage_error_message (stage_2_administrative v) = None"
  using assms
  by (auto simp: full_validation_with_contradiction_check_def Let_def
           split: sum.splits prod.splits if_splits)

lemma verdict_stage_1:
  assumes "full_validation_with_contradiction_check checker ai db clock r = Inr v"
  shows "status (stage_1_clinical v)
           = (if ai_confidence v \<ge> 1 / 2 \<or> is_healthy v then SUCCESS else STAGE_WARNING)
       \<and> passed (stage_1_clinical v) = (ai_confidence v \<ge> 1 / 2 \<or> is_healthy v)
       \<and> (\<not> passed (stage_1_clinical v) \<longrightarrow>
             LowConfidence_reason (ai_confidence v) \<in> set (review_reasons v))
       \<and> stage_error_message (stage_1_clinical v) = None
       \<and> 0 \<le> ai_confidence v \<and> ai_confidence v \<le> 1"
  using assms
  by (auto simp: full_validation_with_contradiction_check_def Let_def
           split: sum.splits prod.splits if_splits)

lemma category_columns:
  "(case map_of [(1, pd_graph_1 d), (2, pd_graph_2 d), (3, pd_graph_3 d), (4, pd_graph_4 d)] g of
      None \<Rightarrow> None | Some None \<Rightarrow> None | Some (Some c) \<Rightarrow> Some c) = pd_graph d g"
  by (auto simp: pd_graph_def split: option.splits)

lemma validate_categories:
  "db_failure db = None \<Longrightarrow>
     categories (validate_article_subpoint db a sp) =
       (case find (\<lambda>d. pd_article d = a \<and> subpoint_clause sp (pd_subpoint d)) (points_diagnoses db) of
          None \<Rightarrow> []
        | Some d \<Rightarrow> [(1, pd_graph_1 d), (2, pd_graph_2 d), (3, pd_graph_3 d), (4, pd_graph_4 d)])"
  by (simp add: validate_article_subpoint_def Let_def split: option.splits)

lemma determine_category_spec_eq:
  assumes "determine_category_spec db a sp g = Inr cres" and "db_failure db = None"
  shows "cat_category cres =
       (case find (\<lambda>d. pd_article d = a \<and> subpoint_clause sp (pd_subpoint d)) (points_diagnoses db) of
          None \<Rightarrow> None
        | Some d \<Rightarrow> pd_graph d g)"
proof -
  from assms(1) have c: "cat_category cres =
      (case map_of (categories (validate_article_subpoint db a sp)) g of
         None \<Rightarrow> None | Some None \<Rightarrow> None | Some (Some c) \<Rightarrow> Some c)"
    by (auto simp: determine_category_spec_def Let_def)
  show ?thesis
  proof (cases "find (\<lambda>d. pd_article d = a \<and> subpoint_clause sp (pd_subpoint d)) (points_diagnoses db)")
    case None
    with c validate_categories[OF assms(2), of a sp] show ?thesis by simp
  next
    case (Some d)
    with validate_categories[OF assms(2), of a sp]
    have "categories (validate_article_subpoint db a sp)
            = [(1, pd_graph_1 d), (2, pd_graph_2 d), (3, pd_graph_3 d), (4, pd_graph_4 d)]"
      by simp
    with c have "cat_category cres = pd_graph d g"
      by (simp only: category_columns)
    with Some show ?thesis by simp
  qed
qed

section \<open>Stage 0 always converts over a sane store\<close>

lemma search_unit:
  assumes "retrieval_sane db" and "0 \<le> thr"
    and "d \<in> set (search_diseases_in_text db t k thr)"
  shows "unit_similarity d"
proof -
  from assms(3) search_cases[of db t k thr] obtain q rows
    where e: "create_embedding db t = Inr q" and n: "nearest_criteria db q k = Inr rows"
    by auto
  from n have "db_failure db = None"
    by (auto simp: nearest_criteria_def split: option.splits)
  with assms(1) e have "\<forall>q. create_embedding db t = Inr q \<longrightarrow> nonneg_distances db q"
    by (auto simp: retrieval_sane_def)
  from search_similarity_range(2)[OF assms(3) this] search_similarity_range(1)[OF assms(3)]
    py_round4_mono[OF assms(2)]
  show ?thesis by (simp add: unit_similarity_def py_round4_0)
qed

lemma search_unit_70:
  "retrieval_sane db \<Longrightarrow> d \<in> set (search_diseases_in_text db t k (7 / 10)) \<Longrightarrow> unit_similarity d"
  by (rule search_unit[of db "7 / 10" d t k]) simp_all

lemma type_a_loop_matches:
  "retrieval_sane db \<Longrightarrow> m \<in> set (rag_matches (type_a_loop self db d fs)) \<Longrightarrow> unit_similarity m"
  by (induction fs) (auto simp: Let_def no_contradiction_def split: if_splits dest: search_unit_70)

lemma check_type_a_matches:
  "retrieval_sane db \<Longrightarrow> m \<in> set (rag_matches (check_type_a self db d fs)) \<Longrightarrow> unit_similarity m"
  by (auto simp: check_type_a_def no_contradiction_def type_a_loop_matches split: if_splits)

lemma type_c_diseases_matches:
  "type_c_diseases dd t fname fval ds = Some res \<Longrightarrow> set (rag_matches res) \<subseteq> insert dd (set ds)"
  by (induction ds) (auto simp: Let_def split: if_splits)

lemma type_c_fields_matches:
  "retrieval_sane db \<Longrightarrow> unit_similarity dd \<Longrightarrow>
     m \<in> set (rag_matches (type_c_fields self db dd d fs)) \<Longrightarrow> unit_similarity m"
proof (induction fs)
  case Nil
  then show ?case by (simp add: no_contradiction_def)
next
  case (Cons f fs)
  obtain fname fval where f: "f = (fname, fval)" by (cases f)
  show ?case
  proof (cases "is_healthy_text self fval")
    case True
    with Cons f show ?thesis by simp
  next
    case False
    show ?thesis
    proof (cases "type_c_diseases dd d fname fval (search_diseases_in_text db fval 3 (7 / 10))")
      case None
      with Cons f False show ?thesis by simp
    next
      case (Some res)
      from type_c_diseases_matches[OF Some] Cons.prems(3) f False Some
      have "m = dd \<or> m \<in> set (search_diseases_in_text db fval 3 (7 / 10))" by auto
      with Cons.prems(1,2) search_unit[of db "7 / 10" m fval 3] show ?thesis by auto
    qed
  qed
qed

lemma check_type_c_matches:
  "retrieval_sane db \<Longrightarrow> m \<in> set (rag_matches (check_type_c self db d fs)) \<Longrightarrow> unit_similarity m"
proof -
  assume s: "retrieval_sane db" and m: "m \<in> set (rag_matches (check_type_c self db d fs))"
  show ?thesis
  proof (cases "search_diseases_in_text db d 2 (65 / 100)")
    case Nil
    with m show ?thesis
      by (simp add: check_type_c_def no_contradiction_def split: if_splits)
  next
    case (Cons dd rest)
    then have "dd \<in> set (search_diseases_in_text db d 2 (65 / 100))" by simp
    with s have "unit_similarity dd" by (intro search_unit[of db "65 / 100" dd d 2]) simp_all
    with s m Cons type_c_fields_matches[of db dd m self d fs] show ?thesis
      by (simp add: check_type_c_def no_contradiction_def split: if_splits)
  qed
qed

lemma check_type_d_matches:
  "retrieval_sane db \<Longrightarrow> m \<in> set (rag_matches (check_type_d self db d c g)) \<Longrightarrow> unit_similarity m"
proof -
  assume s: "retrieval_sane db" and m: "m \<in> set (rag_matches (check_type_d self db d c g))"
  show ?thesis
  proof (cases "search_diseases_in_text db d 1 (7 / 10)")
    case Nil
    with m show ?thesis
      by (simp add: check_type_d_def no_contradiction_def split: if_splits)
  next
    case (Cons best rest)
    then have "best \<in> set (search_diseases_in_text db d 1 (7 / 10))" by simp
    with s have "unit_similarity best" by (intro search_unit[of db "7 / 10" best d 1]) simp_all
    with m Cons show ?thesis
      by (auto simp: check_type_d_def no_contradiction_def Let_def split: if_splits option.splits)
  qed
qed

lemma convert_matches_ok:
  "\<forall>m \<in> set ms. unit_similarity m \<Longrightarrow> \<exists>ms'. convert_matches ms = Inr ms'"
  by (induction ms) (auto simp: unit_similarity_def)

lemma convert_contradictions_ok:
  "\<forall>c \<in> set cs. has_contradiction c \<longrightarrow>
      contradiction_type c \<noteq> None \<and> (\<forall>m \<in> set (rag_matches c). unit_similarity m) \<Longrightarrow>
   \<exists>ds. convert_contradictions cs = Inr ds"
proof (induction cs)
  case Nil
  then show ?case by simp
next
  case (Cons c cs)
  then obtain ds where ds: "convert_contradictions cs = Inr ds" by auto
  show ?case
  proof (cases "has_contradiction c")
    case False
    with ds show ?thesis by simp
  next
    case True
    with Cons.prems obtain ty where ty: "contradiction_type c = Some ty"
      and "\<forall>m \<in> set (rag_matches c). unit_similarity m" by auto
    with convert_matches_ok obtain ms where "convert_matches (rag_matches c) = Inr ms" by blast
    with True ty ds show ?thesis by simp
  qed
qed

lemma stage_0_converts:
  assumes "retrieval_sane db"
  shows "\<exists>ds. convert_contradictions (check_for_contradictions self db r) = Inr ds"
proof (rule convert_contradictions_ok, intro ballI impI)
  fix c assume c: "c \<in> set (check_for_contradictions self db r)" and h: "has_contradiction c"
  from c[unfolded findings_set] h
    check_type_e_kind[of self "diagnosis_text r" "doctor_category r"]
    check_type_f_kind[of self "diagnosis_text r" "doctor_category r"]
    check_type_a_kind[of self db "diagnosis_text r" "record_fields r"]
    check_type_b_kind[of self "diagnosis_text r" "record_fields r"]
    check_type_c_kind[of self db "diagnosis_text r" "record_fields r"]
    check_type_d_kind[of self db "diagnosis_text r" "doctor_category r" "graph r"]
  have t: "contradiction_type c \<noteq> None" by auto
  from c[unfolded findings_set] assms
  have "\<forall>m \<in> set (rag_matches c). unit_similarity m"
    by (auto simp: check_type_e_rag check_type_f_rag check_type_b_rag
          dest: check_type_a_matches check_type_c_matches check_type_d_matches)
  with t show "contradiction_type c \<noteq> None \<and> (\<forall>m \<in> set (rag_matches c). unit_similarity m)"
    by blast
qed

lemma stage_2_returns:
  "\<forall>a. \<not> isl (determine_category ai db a sp g) \<Longrightarrow> \<exists>x. stage_2 ai db h art sp g = Inr x"
  by (auto simp: stage_2_def Let_def isl_def split: option.splits sum.splits)

section \<open>When the full validation returns\<close>

lemma fv_returns:
  assumes "convert_contradictions (check_for_contradictions checker db r) = Inr ds"
    and "determine_subpoint ai db (analysis_text r) (specialty r) (icd10_codes r)
          (article_hint r) (anamnesis r) (complaints r) (special_research_results r) = Inr cl"
    and "stage_2 ai db (get_is_healthy cl) (cr_article cl) (cr_subpoint cl) (graph r) = Inr x"
    and "0 \<le> get_confidence cl" and "get_confidence cl \<le> 1"
  shows "\<exists>v. full_validation_with_contradiction_check checker ai db clock r = Inr v"
proof -
  obtain cat cres p st rs where x: "x = (cat, cres, p, st, rs)" by (cases x)
  show ?thesis
    using assms(4,5)
    by (cases "calculate_overall_status (check_for_contradictions checker db r)
                 (determine_category_match_status (doctor_category r) cat (get_is_healthy cl)
                    (cr_article cl) (cr_subpoint cl) (diagnosis_text r))
                 (get_confidence cl) (get_is_healthy cl)")
       (simp add: full_validation_with_contradiction_check_def Let_def assms(1,2)
          assms(3)[unfolded x])
qed

lemma fv_raises_stage_1:
  assumes "convert_contradictions (check_for_contradictions checker db r) = Inr ds"
    and "determine_subpoint ai db (analysis_text r) (specialty r) (icd10_codes r)
          (article_hint r) (anamnesis r) (complaints r) (special_research_results r) = Inl e"
  shows "full_validation_with_contradiction_check checker ai db clock r = Inl e"
  by (simp add: full_validation_with_contradiction_check_def Let_def assms)

lemma fv_raises_stage_2:
  assumes "convert_contradictions (check_for_contradictions checker db r) = Inr ds"
    and "determine_subpoint ai db (analysis_text r) (specialty r) (icd10_codes r)
          (article_hint r) (anamnesis r) (complaints r) (special_research_results r) = Inr cl"
    and "\<not> get_is_healthy cl" and "cr_article cl = Some a" and "a \<noteq> 0"
    and "determine_category ai db a (cr_subpoint cl) (graph r) = Inl e"
  shows "full_validation_with_contradiction_check checker ai db clock r = Inl e"
  by (simp add: full_validation_with_contradiction_check_def Let_def assms stage_2_def)

section \<open>Facts about the example data\<close>

lemma dist_tb: "vector_cosine_distance [4 / 5, 3 / 5] [1, 0] = 1 / 5"
  by (simp add: vector_cosine_distance_def dot_def)

lemma dist_far: "vector_cosine_distance [- 1, 0] [1, 0] = 2"
  by (simp add: vector_cosine_distance_def dot_def)

lemma world0_rows:
  "List.map_filter (with_distance world0 [1, 0]) (point_criteria world0)
     = [(criterion_far, 2), (criterion_tb, 1 / 5)]"
  by (simp add: world0_def with_distance_def
        criterion_tb_def criterion_far_def criterion_blank_def dist_tb dist_far)

lemma world0_nearest:
  "nearest_criteria world0 [1, 0] 1 = Inr [(criterion_tb, 1 / 5)]"
  "nearest_criteria world0 [1, 0] 5 = Inr [(criterion_tb, 1 / 5), (criterion_far, 2)]"
  unfolding nearest_criteria_def world0_rows by (simp_all add: world0_def)

lemma world0_embedding: "create_embedding world0 t = Inr [1, 0]"
  by (simp add: world0_def)

lemma world0_nonneg: "nonneg_distances world0 [1, 0]"
  by (simp add: nonneg_distances_def world0_def criterion_tb_def criterion_far_def
        criterion_blank_def dist_tb dist_far)

lemma text_tb_long: "py_strip text_tb = text_tb" "length text_tb = 33"
  by (simp_all add: py_strip_def text_tb_def is_space_def)

lemma round_examples: "py_round4 (4 / 5) = 4 / 5" "py_round4 (- 1) = - 1"
  by (simp_all add: py_round4_def round_half_even_def Let_def)

lemma search_tb_top1:
  "search_diseases_in_text world0 text_tb 1 (7 / 10) =
     [\<lparr>d_article = 2, d_subpoint = [49], d_description = [], d_similarity = 4 / 5,
       d_graph_1 = Some [1045], d_graph_2 = Some [1045], d_graph_3 = Some [1045],
       d_graph_4 = Some [1053, 1043]\<rparr>]"
  by (simp add: search_diseases_in_text_def text_tb_long world0_embedding world0_nearest
        round_examples)
     (simp add: text_tb_def criterion_tb_def)

lemma not_healthy_tb: "\<not> is_healthy_text checker0 text_tb"
  by (simp add: is_healthy_text_def checker0_def text_tb_def py_lower_def lower_cp_def
        py_in_def Let_def)

lemma normalized_letters:
  "py_strip (py_upper [1040]) = [1040]" "py_strip (py_upper [1045]) = [1045]"
  "py_strip (py_upper [1044]) = [1044]" "py_strip (py_upper []) = []"
  by (simp_all add: py_strip_def py_upper_def upper_cp_def is_space_def)


lemma exam_fields:
  "diagnosis_text exam_tb_A = text_tb" "doctor_category exam_tb_A = [1040]"
  "graph exam_tb_A = 1" "record_fields exam_tb_A = []"
  "diagnosis_text exam_tb_E = text_tb" "doctor_category exam_tb_E = [1045]"
  "graph exam_tb_E = 1" "record_fields exam_tb_E = []"
  by (simp_all add: exam_tb_A_def exam_tb_E_def blank_examination_def record_fields_def
        additional_fields_def)

lemma world_blank_nearest:
  "nearest_criteria world_blank [1, 0] 1 = Inr [(criterion_tb\<lparr>pc_graph_1 := Some []\<rparr>, 1 / 5)]"
  by (simp add: nearest_criteria_def world_blank_def world0_def with_distance_def
        criterion_tb_def dist_tb)

lemma world_blank_embedding: "create_embedding world_blank t = Inr [1, 0]"
  by (simp add: world_blank_def world0_def)

lemma search_blank:
  "search_diseases_in_text world_blank text_tb 1 (7 / 10) =
     [\<lparr>d_article = 2, d_subpoint = [49], d_description = [], d_similarity = 4 / 5,
       d_graph_1 = Some [], d_graph_2 = Some [1045], d_graph_3 = Some [1045],
       d_graph_4 = Some [1053, 1043]\<rparr>]"
  by (simp add: search_diseases_in_text_def text_tb_long world_blank_embedding
        world_blank_nearest round_examples)
     (simp add: text_tb_def criterion_tb_def)

lemma dist_c:
  "vector_cosine_distance [- 1, 0] [- 1, 0] = 0"
  "vector_cosine_distance [4 / 5, 3 / 5] [- 1, 0] = 9 / 5"
  by (simp_all add: vector_cosine_distance_def dot_def)

lemma text_hyp_long: "py_strip text_hyp = text_hyp" "length text_hyp = 33" "text_hyp \<noteq> text_tb"
  by (simp_all add: py_strip_def text_hyp_def text_tb_def is_space_def)

lemma world_c_embedding:
  "create_embedding world_c text_tb = Inr [1, 0]"
  "create_embedding world_c text_hyp = Inr [- 1, 0]"
  by (simp_all add: world_c_def world0_def text_hyp_long)

lemma world_c_nearest:
  "nearest_criteria world_c [1, 0] 3 = Inr [(criterion_tb, 1 / 5), (criterion_far, 2)]"
  "nearest_criteria world_c [- 1, 0] 2 = Inr [(criterion_far, 0), (criterion_tb, 9 / 5)]"
  by (simp_all add: nearest_criteria_def world_c_def world0_def with_distance_def
        criterion_tb_def criterion_far_def criterion_blank_def dist_tb dist_far dist_c)

lemma round_one: "py_round4 1 = 1"
  by (simp add: py_round4_def round_half_even_def)

lemma search_c_diagnosis:
  "search_diseases_in_text world_c text_hyp 2 (13 / 20) =
     [\<lparr>d_article = 43, d_subpoint = [51], d_description = [], d_similarity = 1,
       d_graph_1 = Some [1044], d_graph_2 = Some [1044],
       d_graph_3 = Some [1042, 45, 1048, 1053, 1044], d_graph_4 = Some [1053, 1043]\<rparr>]"
  by (simp add: search_diseases_in_text_def text_hyp_long world_c_embedding world_c_nearest
        round_one)
     (simp add: text_hyp_def criterion_far_def)

lemma search_c_field:
  "search_diseases_in_text world_c text_tb 3 (7 / 10) =
     [\<lparr>d_article = 2, d_subpoint = [49], d_description = [], d_similarity = 4 / 5,
       d_graph_1 = Some [1045], d_graph_2 = Some [1045], d_graph_3 = Some [1045],
       d_graph_4 = Some [1053, 1043]\<rparr>]"
  by (simp add: search_diseases_in_text_def text_tb_long world_c_embedding world_c_nearest
        round_examples)
     (simp add: text_tb_def criterion_tb_def)

lemma not_healthy_hyp: "\<not> is_healthy_text checker0 text_hyp"
  by (simp add: is_healthy_text_def checker0_def text_hyp_def py_lower_def lower_cp_def
        py_in_def Let_def)

lemma exam_c_fields:
  "diagnosis_text (exam_c\<lparr>graph := g\<rparr>) = text_hyp"
  "record_fields (exam_c\<lparr>graph := g\<rparr>) = [(''anamnesis'', text_tb)]"
  by (simp_all add: exam_c_def blank_examination_def record_fields_def additional_fields_def
        text_tb_long)
     (simp add: text_tb_def)

lemma type_c_example:
  "outcome (check_type_c checker0 world_c text_hyp [(''anamnesis'', text_tb)]) = (True, CRITICAL)"
  by (simp add: check_type_c_def not_healthy_hyp not_healthy_tb search_c_diagnosis
        search_c_field categories_get_def category_severity_get_def category_severity_def
        outcome_def Let_def)

lemma healthy_text_healthy: "is_healthy_text checker0 text_healthy"
  by (simp add: is_healthy_text_def checker0_def text_healthy_def py_lower_def lower_cp_def
        py_in_def Let_def)

lemma exam_healthy_B_fields:
  "diagnosis_text exam_healthy_B = text_healthy" "doctor_category exam_healthy_B = [1041]"
  "graph exam_healthy_B = 1" "record_fields exam_healthy_B = []"
  "conclusion_text exam_healthy_B = None"
  by (simp_all add: exam_healthy_B_def blank_examination_def record_fields_def
        additional_fields_def)

lemma normalized_B: "py_strip (py_upper [1041]) = [1041]"
  by (simp add: py_strip_def py_upper_def upper_cp_def is_space_def)

lemma findings_healthy_B:
  "check_for_contradictions checker0 world0 exam_healthy_B =
     [check_type_e checker0 text_healthy [1041]]"
  "has_contradiction (check_type_e checker0 text_healthy [1041])"
  "severity (check_type_e checker0 text_healthy [1041]) = HIGH"
  "rag_matches (check_type_e checker0 text_healthy [1041]) = []"
  "contradiction_type (check_type_e checker0 text_healthy [1041]) = Some TYPE_E"
  by (simp_all add: check_for_contradictions_def Let_def exam_healthy_B_fields append_if_def
        check_type_e_def check_type_f_def check_type_a_def check_type_b_def check_type_c_def
        check_type_d_def healthy_text_healthy normalized_B cat_A_cyr_def cat_A_lat_def
        no_contradiction_def)

lemma analyzer0_answers:
  "determine_subpoint analyzer0 db t sp icd hint an co re = Inr clinical0"
  "determine_category analyzer0 = determine_category_spec"
  by (simp_all add: analyzer0_def)

lemma clinical0_fields:
  "cr_is_healthy clinical0 = Some False" "cr_article clinical0 = Some 2"
  "cr_subpoint clinical0 = Some [49]" "cr_confidence clinical0 = Some (9 / 10)"
  "cr_reasoning clinical0 = Some []" "cr_model clinical0 = None"
  "cr_tokens_total clinical0 = Some 0" "cr_validation_performed clinical0 = Some True"
  "cr_matched_criteria clinical0 = None"
  "get_is_healthy clinical0 = False" "get_confidence clinical0 = 9 / 10"
  by (simp_all add: clinical0_def get_is_healthy_def get_confidence_def)

lemma lookup_2_1:
  "categories (validate_article_subpoint world0 2 (Some [49]))
     = [(1, Some [1045]), (2, Some [1045]), (3, Some [1045]), (4, Some [1053, 1043])]"
  by (simp add: validate_article_subpoint_def world0_def Let_def
        subpoint_clause_def subpoint_absent_def str_null_def str_None_def
        criterion_tb_def criterion_far_def criterion_blank_def
        diagnosis_row_88_def diagnosis_row_2_1_def)

lemma stage_2_example:
  "\<exists>cres. stage_2 analyzer0 world0 False (Some 2) (Some [49]) 1
      = Inr (Some [1045], cres, True, SUCCESS, [])"
  by (simp add: stage_2_def analyzer0_answers Let_def determine_category_spec_def lookup_2_1)

lemma verdict_healthy_B:
  "\<exists>v. full_validation_with_contradiction_check checker0 analyzer0 world0 clock exam_healthy_B = Inr v
      \<and> overall_status v = INVALID \<and> risk_level v = HIGH \<and> length (review_reasons v) = 2
      \<and> total_duration_seconds (metadata v) = clock 7 - clock 0"
proof -
  obtain cres where s2: "stage_2 analyzer0 world0 False (Some 2) (Some [49]) 1
      = Inr (Some [1045], cres, True, SUCCESS, [])"
    using stage_2_example by blast
  show ?thesis
    by (simp add: full_validation_with_contradiction_check_def Let_def findings_healthy_B
          exam_healthy_B_fields analyzer0_answers clinical0_fields s2
          determine_category_match_status_def normalized_B normalized_letters
          is_borderline_case_def calculate_overall_status_def match_reasons_def)
qed

lemma world_down_fails:
  "(\<forall>t. isl (create_embedding world_down t)) \<or> db_failure world_down \<noteq> None"
  "create_embedding world_down t = Inl EmbeddingError"
  by (simp_all add: world_down_def)

lemma world_down_sane: "retrieval_sane world_down"
  by (simp add: retrieval_sane_def world_down_fails)

lemma exam_more_fields:
  "diagnosis_text exam_88 = text_hyp" "doctor_category exam_88 = [1042]"
  "graph exam_88 = 1" "record_fields exam_88 = []"
  by (simp_all add: exam_88_def blank_examination_def record_fields_def additional_fields_def)

lemma normalized_V: "py_strip (py_upper [1042]) = [1042]"
  by (simp add: py_strip_def py_upper_def upper_cp_def is_space_def)

lemma findings_down:
  "check_for_contradictions checker0 world_down exam_tb_E = []"
  "check_for_contradictions checker0 world_down exam_88 = []"
  by (simp_all add: findings_silent[OF search_fails[OF world_down_fails(1)]] append_if_def
        exam_fields exam_more_fields check_type_e_def check_type_f_def check_type_b_def
        not_healthy_tb not_healthy_hyp normalized_letters normalized_V cat_A_cyr_def
        cat_A_lat_def no_contradiction_def)

lemma lookups_down:
  "categories (validate_article_subpoint world_down 2 (Some [49]))
     = [(1, Some [1045]), (2, Some [1045]), (3, Some [1045]), (4, Some [1053, 1043])]"
  "categories (validate_article_subpoint world_down 88 (Some []))
     = [(1, Some [1042]), (2, Some [1042]), (3, Some [1043]), (4, None)]"
  by (simp_all add: validate_article_subpoint_def world_down_def world0_def Let_def
        subpoint_clause_def subpoint_absent_def str_null_def str_None_def
        criterion_tb_def criterion_far_def criterion_blank_def
        diagnosis_row_88_def diagnosis_row_2_1_def)

lemma analyzer_88_answers:
  "determine_subpoint analyzer_88 db t sp icd hint an co re
     = Inr (clinical0\<lparr>cr_article := Some 88, cr_subpoint := Some []\<rparr>)"
  "determine_category analyzer_88 = determine_category_spec"
  by (simp_all add: analyzer_88_def analyzer0_def)

lemma analyzer_down_answers:
  "determine_subpoint analyzer_down db t sp icd hint an co re = Inl CompletionError"
  by (simp add: analyzer_down_def)

lemma stage_2_down:
  "\<exists>cres. stage_2 analyzer0 world_down False (Some 2) (Some [49]) 1
      = Inr (Some [1045], cres, True, SUCCESS, [])"
  "\<exists>cres. stage_2 analyzer_88 world_down False (Some 88) (Some []) 1
      = Inr (Some [1042], cres, True, SUCCESS, [])"
  by (simp_all add: stage_2_def analyzer0_answers analyzer_88_answers Let_def
        determine_category_spec_def lookups_down)

lemma verdict_down_tb_E:
  "\<exists>v. full_validation_with_contradiction_check checker0 analyzer0 world_down clock0 exam_tb_E = Inr v
     \<and> overall_status v = VALID \<and> risk_level v = LOW \<and> review_reasons v = []
     \<and> \<not> should_review v \<and> stage_0_contradictions v = []
     \<and> status (stage_1_clinical v) = SUCCESS \<and> status (stage_2_administrative v) = SUCCESS
     \<and> stage_error_message (stage_1_clinical v) = None
     \<and> stage_error_message (stage_2_administrative v) = None"
proof -
  obtain cres where s2: "stage_2 analyzer0 world_down False (Some 2) (Some [49]) 1
      = Inr (Some [1045], cres, True, SUCCESS, [])"
    using stage_2_down(1) by blast
  show ?thesis
    by (simp add: full_validation_with_contradiction_check_def Let_def findings_down
          exam_fields analyzer0_answers clinical0_fields s2
          determine_category_match_status_def normalized_letters
          calculate_overall_status_def match_reasons_def)
qed

subsection \<open>The texts with a repeated keyword\<close>






section \<open>Stage 0: the text rules\<close>







section \<open>The standalone disease search\<close>

text \<open>
  Claim C6, as the code has it. For every query text, every \<open>top_k\<close> and every
  threshold that is not negative, over a store whose distances to the query embedding
  are not negative: a text of fewer than 10 code points after stripping gives the
  empty list; every returned similarity lies in [0, 1]; the entries are ordered
  non-increasing by similarity; when the embedding and the statement succeed, the
  similarities are those of the first \<open>top_k\<close> rows in distance order, with the rows
  below the threshold dropped after that cut, each 1 minus the distance rounded to 4
  decimals; and the route returns the list of the service unchanged.
\<close>

theorem search_similarity_bounds_and_order:
  assumes "0 \<le> thr"
    and "\<forall>q. create_embedding db t = Inr q \<longrightarrow> nonneg_distances db q"
  shows "(length (py_strip t) < 10 \<longrightarrow> search_diseases_in_text db t k thr = [])
       \<and> (\<forall>d \<in> set (search_diseases_in_text db t k thr). 0 \<le> d_similarity d \<and> d_similarity d \<le> 1)
       \<and> sorted_wrt (\<lambda>a b. d_similarity b \<le> d_similarity a) (search_diseases_in_text db t k thr)
       \<and> (\<forall>q rows. 10 \<le> length (py_strip t) \<and> create_embedding db t = Inr q
             \<and> nearest_criteria db q k = Inr rows \<longrightarrow>
             map d_similarity (search_diseases_in_text db t k thr)
               = map (\<lambda>(c, dist). py_round4 (1 - dist)) (filter (\<lambda>(c, dist). thr \<le> 1 - dist) rows)
             \<and> rows = take (nat k) (sort_key snd
                  (List.map_filter (with_distance db q) (point_criteria db))))
       \<and> diseases (search_diseases_in_text_route db t k thr) = search_diseases_in_text db t k thr"
proof -
  have a: "length (py_strip t) < 10 \<longrightarrow> search_diseases_in_text db t k thr = []"
    by (simp add: search_diseases_in_text_def)
  have b: "\<forall>d \<in> set (search_diseases_in_text db t k thr). 0 \<le> d_similarity d \<and> d_similarity d \<le> 1"
  proof
    fix d assume d: "d \<in> set (search_diseases_in_text db t k thr)"
    from py_round4_mono[OF assms(1)] have "0 \<le> py_round4 thr" by (simp add: py_round4_0)
    with search_similarity_range[OF d] assms(2)
    show "0 \<le> d_similarity d \<and> d_similarity d \<le> 1" by force
  qed
  have c: "\<forall>q rows. 10 \<le> length (py_strip t) \<and> create_embedding db t = Inr q
             \<and> nearest_criteria db q k = Inr rows \<longrightarrow>
             map d_similarity (search_diseases_in_text db t k thr)
               = map (\<lambda>(c, dist). py_round4 (1 - dist)) (filter (\<lambda>(c, dist). thr \<le> 1 - dist) rows)
             \<and> rows = take (nat k) (sort_key snd
                  (List.map_filter (with_distance db q) (point_criteria db)))"
  proof (intro allI impI, elim conjE)
    fix q rows
    assume l: "10 \<le> length (py_strip t)" and e: "create_embedding db t = Inr q"
      and n: "nearest_criteria db q k = Inr rows"
    from l have "t \<noteq> []" by (auto simp: py_strip_def)
    with l e n have "search_diseases_in_text db t k thr = format_rows thr rows"
      by (simp add: search_diseases_in_text_def)
    then have "map d_similarity (search_diseases_in_text db t k thr)
               = map (\<lambda>(c, dist). py_round4 (1 - dist)) (filter (\<lambda>(c, dist). thr \<le> 1 - dist) rows)"
      by (simp add: format_rows_eq not_less case_prod_beta comp_def)
    with nearest_criteria_rows[OF n]
    show "map d_similarity (search_diseases_in_text db t k thr)
               = map (\<lambda>(c, dist). py_round4 (1 - dist)) (filter (\<lambda>(c, dist). thr \<le> 1 - dist) rows)
             \<and> rows = take (nat k) (sort_key snd
                  (List.map_filter (with_distance db q) (point_criteria db)))" by blast
  qed
  have d: "diseases (search_diseases_in_text_route db t k thr) = search_diseases_in_text db t k thr"
    by (simp add: search_diseases_in_text_route_def Let_def)
  from a b c d search_sorted[of db t k thr] show ?thesis by blast
qed

text \<open>With a negative threshold (the route accepts any number) a similarity outside
  [0, 1] is returned: the criterion whose embedding is opposite to the query has
  distance 2 and similarity -1.\<close>

theorem search_negative_threshold_counterexample:
  "10 \<le> length (py_strip text_tb)
   \<and> map d_similarity (search_diseases_in_text world0 text_tb 5 (- 1)) = [4 / 5, - 1]
   \<and> map d_similarity (diseases (search_diseases_in_text_route world0 text_tb 5 (- 1))) = [4 / 5, - 1]"
  by (simp add: search_diseases_in_text_route_def Let_def search_diseases_in_text_def
        text_tb_long world0_embedding world0_nearest round_examples)
     (simp add: text_tb_def)

text \<open>At the threshold 0.70 the same query returns the one near criterion.\<close>

theorem search_similarity_witness:
  "(0 :: real) \<le> 7 / 10
   \<and> create_embedding world0 text_tb = Inr [1, 0]
   \<and> nonneg_distances world0 [1, 0]
   \<and> map d_similarity (search_diseases_in_text world0 text_tb 5 (7 / 10)) = [4 / 5]
   \<and> sorted_wrt (\<lambda>a b. d_similarity b \<le> d_similarity a)
        (search_diseases_in_text world0 text_tb 5 (7 / 10))"
proof -
  have h1: "(0 :: real) \<le> 7 / 10" by simp
  have h2: "\<forall>q. create_embedding world0 text_tb = Inr q \<longrightarrow> nonneg_distances world0 q"
    by (simp add: world0_embedding world0_nonneg)
  have v: "map d_similarity (search_diseases_in_text world0 text_tb 5 (7 / 10)) = [4 / 5]"
    by (simp add: search_diseases_in_text_def
        text_tb_long world0_embedding world0_nearest round_examples)
       (simp add: text_tb_def)
  from search_similarity_bounds_and_order[OF h1 h2, of 5] v world0_embedding world0_nonneg
  show ?thesis by simp
qed

section \<open>Retrieval failures during Stage 0\<close>



section \<open>Type D: the category against the reference\<close>

text \<open>
  Claim C5, as the code has it. When the diagnosis is not healthy text, Stage 0 looks at
  the first entry that retrieval of the diagnosis (top 1, threshold 0.70) returns. If
  nothing is returned, or the entry's category for the record's graph is null or the
  empty string, or it equals the doctor's category after upper-casing and stripping
  both, no Type D finding is emitted. Otherwise a Type D finding is emitted whose
  severity is CRITICAL if the ordinals of the two normalized categories differ by at
  least 2 and HIGH otherwise; the ordinals are A 1, B 2, V 3, V-IND 3, G 4, D 5, E 6,
  NG 7 (Cyrillic letters), and 0 for anything else.
\<close>

theorem type_d_by_ordinal_distance:
  assumes "\<not> is_healthy_text self (diagnosis_text r)"
  shows "(case search_diseases_in_text db (diagnosis_text r) 1 (7 / 10) of
            [] \<Rightarrow> \<not> (\<exists>f \<in> set (check_for_contradictions self db r). contradiction_type f = Some TYPE_D)
          | best_match # _ \<Rightarrow>
              (case categories_get best_match (graph r) of
                 None \<Rightarrow> \<not> (\<exists>f \<in> set (check_for_contradictions self db r).
                               contradiction_type f = Some TYPE_D)
               | Some expected \<Rightarrow>
                   if expected = []
                      \<or> py_strip (py_upper (doctor_category r)) = py_strip (py_upper expected)
                   then \<not> (\<exists>f \<in> set (check_for_contradictions self db r).
                              contradiction_type f = Some TYPE_D)
                   else
                     (\<exists>f \<in> set (check_for_contradictions self db r).
                         contradiction_type f = Some TYPE_D
                         \<and> severity f =
                            (if 2 \<le> \<bar>category_severity (py_strip (py_upper (doctor_category r)))
                                      - category_severity (py_strip (py_upper expected))\<bar>
                             then CRITICAL else HIGH))))
       \<and> map category_severity
            [[1040], [1041], [1042], [1042, 45, 1048, 1053, 1044], [1043], [1044], [1045],
             [1053, 1043]] = [1, 2, 3, 3, 4, 5, 6, 7]"
proof -
  let ?d = "check_type_d self db (diagnosis_text r) (doctor_category r) (graph r)"
  have none: "\<not> has_contradiction ?d \<Longrightarrow>
      \<not> (\<exists>f \<in> set (check_for_contradictions self db r). contradiction_type f = Some TYPE_D)"
    using type_d_findings[of self db r "\<lambda>f. True"] by simp
  have some: "has_contradiction ?d \<Longrightarrow> severity ?d = s \<Longrightarrow>
      \<exists>f \<in> set (check_for_contradictions self db r). contradiction_type f = Some TYPE_D \<and> severity f = s" for s
    using type_d_findings[of self db r "\<lambda>f. severity f = s"] by simp
  have tab: "map category_severity
            [[1040], [1041], [1042], [1042, 45, 1048, 1053, 1044], [1043], [1044], [1045],
             [1053, 1043]] = [1, 2, 3, 3, 4, 5, 6, 7]"
    by (simp add: category_severity_def)
  show ?thesis
  proof (cases "search_diseases_in_text db (diagnosis_text r) 1 (7 / 10)")
    case Nil
    then have "\<not> has_contradiction ?d"
      by (simp add: check_type_d_def no_contradiction_def)
    with Nil none tab show ?thesis by simp
  next
    case (Cons best rest)
    show ?thesis
    proof (cases "categories_get best (graph r)")
      case None
      with Cons have "\<not> has_contradiction ?d"
        by (simp add: check_type_d_def no_contradiction_def)
      with Cons None none tab show ?thesis by simp
    next
      case (Some expected)
      show ?thesis
      proof (cases "expected = []
                      \<or> py_strip (py_upper (doctor_category r)) = py_strip (py_upper expected)")
        case True
        with Cons Some have "\<not> has_contradiction ?d"
          by (auto simp: check_type_d_def no_contradiction_def Let_def)
        with Cons Some True none tab show ?thesis by simp
      next
        case False
        with Cons Some assms have "has_contradiction ?d"
          and "severity ?d =
                 (if 2 \<le> \<bar>category_severity (py_strip (py_upper (doctor_category r)))
                                      - category_severity (py_strip (py_upper expected))\<bar>
                             then CRITICAL else HIGH)"
          by (simp_all add: check_type_d_def Let_def)
        from some[OF this] Cons Some False tab show ?thesis by simp
      qed
    qed
  qed
qed

text \<open>Tuberculosis with category A against the reference category E: five ordinals
  apart, CRITICAL. With category E the categories agree and nothing is emitted.\<close>

theorem type_d_witness:
  "\<not> is_healthy_text checker0 (diagnosis_text exam_tb_A)
   \<and> (\<exists>f \<in> set (check_for_contradictions checker0 world0 exam_tb_A).
         contradiction_type f = Some TYPE_D \<and> severity f = CRITICAL)
   \<and> \<not> (\<exists>f \<in> set (check_for_contradictions checker0 world0 exam_tb_E).
           contradiction_type f = Some TYPE_D)"
proof -
  have h: "\<not> is_healthy_text checker0 (diagnosis_text exam_tb_A)"
    "\<not> is_healthy_text checker0 (diagnosis_text exam_tb_E)"
    by (simp_all add: exam_fields not_healthy_tb)
  from type_d_by_ordinal_distance[OF h(1), of world0]
    type_d_by_ordinal_distance[OF h(2), of world0] h(1)
  show ?thesis
    by (simp add: exam_fields search_tb_top1 categories_get_def normalized_letters
          category_severity_def)
qed

text \<open>Where the claim as stated fails: the retrieved criterion has the empty string
  (not null) as its category for the record's graph, which differs from the doctor's
  category A after normalization, and yet no Type D finding is emitted.\<close>

theorem type_d_empty_category_counterexample:
  "\<not> is_healthy_text checker0 (diagnosis_text exam_tb_A)
   \<and> map (\<lambda>d. categories_get d (graph exam_tb_A))
        (search_diseases_in_text world_blank (diagnosis_text exam_tb_A) 1 (7 / 10)) = [Some []]
   \<and> py_strip (py_upper []) \<noteq> py_strip (py_upper (doctor_category exam_tb_A))
   \<and> filter (\<lambda>f. contradiction_type f = Some TYPE_D)
        (check_for_contradictions checker0 world_blank exam_tb_A) = []"
proof -
  have "check_type_d checker0 world_blank text_tb [1040] 1 = no_contradiction"
    by (simp add: check_type_d_def not_healthy_tb search_blank categories_get_def)
  then have "\<not> has_contradiction
      (check_type_d checker0 world_blank (diagnosis_text exam_tb_A)
         (doctor_category exam_tb_A) (graph exam_tb_A))"
    by (simp add: exam_fields no_contradiction_def)
  with type_d_findings[of checker0 world_blank exam_tb_A "\<lambda>f. True"]
  have "filter (\<lambda>f. contradiction_type f = Some TYPE_D)
        (check_for_contradictions checker0 world_blank exam_tb_A) = []"
    by (auto simp: filter_empty_conv)
  then show ?thesis
    by (simp add: exam_fields not_healthy_tb normalized_letters search_blank categories_get_def)
qed

section \<open>Type C and the conscription graph\<close>

text \<open>
  Claim C9. The Type C findings of Stage 0 are the same for any two records that differ
  only in the graph. Whether the check fires on a list of matches, and with which
  severity, stays the same when the categories of the diagnosis match and of the
  field matches for the graphs 2, 3 and 4 are blanked: the comparison reads the
  graph-1 categories only.
\<close>

theorem type_c_ignores_the_graph:
  "filter (\<lambda>f. contradiction_type f = Some TYPE_C)
       (check_for_contradictions self db (r\<lparr>graph := ga\<rparr>))
     = filter (\<lambda>f. contradiction_type f = Some TYPE_C)
         (check_for_contradictions self db (r\<lparr>graph := gb\<rparr>))
   \<and> map_option outcome (type_c_diseases dd t fname fval ds)
       = map_option outcome (type_c_diseases (graph_1_only dd) t fname fval (map graph_1_only ds))"
  using type_c_diseases_graph_1[of dd t fname fval ds]
  by (simp add: type_c_only record_fields_def)

text \<open>A record on which Type C fires (hypertension in the diagnosis, tuberculosis in the
  anamnesis): the finding is the same for graph 1 and graph 4.\<close>

theorem type_c_graph_witness:
  "filter (\<lambda>f. contradiction_type f = Some TYPE_C)
       (check_for_contradictions checker0 world_c (exam_c\<lparr>graph := 1\<rparr>))
     = filter (\<lambda>f. contradiction_type f = Some TYPE_C)
         (check_for_contradictions checker0 world_c (exam_c\<lparr>graph := 4\<rparr>))
   \<and> map outcome (filter (\<lambda>f. contradiction_type f = Some TYPE_C)
         (check_for_contradictions checker0 world_c (exam_c\<lparr>graph := 4\<rparr>))) = [(True, CRITICAL)]"
proof -
  have "map outcome (filter (\<lambda>f. contradiction_type f = Some TYPE_C)
         (check_for_contradictions checker0 world_c (exam_c\<lparr>graph := 4\<rparr>))) = [(True, CRITICAL)]"
    using type_c_example
    by (simp add: type_c_only exam_c_fields append_if_def outcome_def)
  with type_c_ignores_the_graph[where self = checker0 and db = world_c and r = exam_c
      and ga = 1 and gb = 4] show ?thesis by simp
qed

section \<open>The verdict\<close>

text \<open>
  Claim C1. For every verdict that the full validation returns, \<open>should_review\<close> equals
  the disjunction: the overall status is not VALID, or the list of review reasons is
  not empty, or the risk level is HIGH or CRITICAL. In particular it is true whenever
  one of the three holds.
\<close>

theorem should_review_is_the_disjunction:
  assumes "full_validation_with_contradiction_check checker ai db clock r = Inr v"
  shows "should_review v =
           (overall_status v \<noteq> VALID \<or> review_reasons v \<noteq> []
            \<or> risk_level v = HIGH \<or> risk_level v = CRITICAL)"
  using assms
  by (auto simp: full_validation_with_contradiction_check_def Let_def
           split: sum.splits prod.splits if_splits)

text \<open>"Healthy" with category B, classified as article 2 subpoint 1 (category E): the
  verdict is INVALID with risk HIGH and two review reasons, and is flagged for review.\<close>

theorem should_review_witness:
  "\<exists>v. full_validation_with_contradiction_check checker0 analyzer0 world0 clock0 exam_healthy_B = Inr v
      \<and> should_review v \<and> overall_status v = INVALID \<and> risk_level v = HIGH
      \<and> length (review_reasons v) = 2"
proof -
  from verdict_healthy_B[of clock0] obtain v
    where v: "full_validation_with_contradiction_check checker0 analyzer0 world0 clock0 exam_healthy_B = Inr v"
      "overall_status v = INVALID" "risk_level v = HIGH" "length (review_reasons v) = 2"
    by blast
  from should_review_is_the_disjunction[OF v(1)] v show ?thesis by auto
qed

section \<open>Two runs on the same record\<close>

text \<open>
  Claim C8. Two calls of the full validation with the same record, the same store and
  the same (deterministic) capabilities differ at most in what the clock gave them:
  whatever the readings of the clock in the two calls, either both calls raise the
  same exception or both return verdicts that are equal in every field except the
  duration fields (of the stages and of the total).
\<close>

theorem verdict_does_not_depend_on_the_clock:
  "map_sum id without_durations (full_validation_with_contradiction_check checker ai db clock r)
     = map_sum id without_durations (full_validation_with_contradiction_check checker ai db clock' r)"
  by (simp add: full_validation_with_contradiction_check_def Let_def without_durations_def
        split: sum.splits prod.splits)

text \<open>Two runs of the same examination under a clock and under one that runs ten times
  as fast: the verdicts differ (in the total duration), and are equal once the
  durations are blanked.\<close>

theorem clock_witness:
  "map_sum id without_durations
       (full_validation_with_contradiction_check checker0 analyzer0 world0 clock0 exam_healthy_B)
     = map_sum id without_durations
         (full_validation_with_contradiction_check checker0 analyzer0 world0 (\<lambda>n. 10 * real n)
            exam_healthy_B)
   \<and> full_validation_with_contradiction_check checker0 analyzer0 world0 clock0 exam_healthy_B
       \<noteq> full_validation_with_contradiction_check checker0 analyzer0 world0 (\<lambda>n. 10 * real n)
           exam_healthy_B
   \<and> \<not> isl (full_validation_with_contradiction_check checker0 analyzer0 world0 clock0 exam_healthy_B)"
proof -
  from verdict_healthy_B[of clock0] obtain v
    where v: "full_validation_with_contradiction_check checker0 analyzer0 world0 clock0 exam_healthy_B = Inr v"
      "total_duration_seconds (metadata v) = clock0 7 - clock0 0"
    by blast
  from verdict_healthy_B[of "\<lambda>n. 10 * real n"] obtain w
    where w: "full_validation_with_contradiction_check checker0 analyzer0 world0 (\<lambda>n. 10 * real n)
                exam_healthy_B = Inr w"
      "total_duration_seconds (metadata w) = 10 * real 7 - 10 * real 0"
    by blast
  from v(2) w(2) have "v \<noteq> w" by (auto simp: clock0_def)
  with v(1) w(1)
    verdict_does_not_depend_on_the_clock[of checker0 analyzer0 world0 clock0 exam_healthy_B
      "\<lambda>n. 10 * real n"]
  show ?thesis by simp
qed

section \<open>Stage 2: the category from the reference\<close>

text \<open>
  Claim C7, with the resolver modelled from the specification (its source is not
  available): the lookup of \<^verbatim>\<open>validate_article_subpoint\<close>, then the category of the
  row found for the record's graph. For every verdict whose Stage-1 result is not
  healthy and carries an article: Stage 2 passes exactly when a category was found,
  its status is then SUCCESS and otherwise ERROR, and when none was found a review
  reason naming the article and the subpoint is recorded. With a working session the
  category is that of the first row of Appendix 1 for the article whose stored
  subpoint satisfies the lookup's clause; and when the subpoint is null or empty, the
  clause is satisfied exactly by a stored subpoint that is NULL, the empty string or
  the string 'null', not by equality with the given value.
\<close>

theorem stage_2_resolves_the_category:
  assumes "determine_category ai = determine_category_spec"
    and "full_validation_with_contradiction_check checker ai db clock r = Inr v"
    and "\<not> is_healthy v"
    and "ai_recommended_article v = Some a" and "a \<noteq> 0"
  shows "passed (stage_2_administrative v) = (ai_recommended_category v \<noteq> None)
       \<and> s2_expected_category (details (stage_2_administrative v)) = ai_recommended_category v
       \<and> status (stage_2_administrative v)
           = (if ai_recommended_category v \<noteq> None then SUCCESS else ERROR)
       \<and> (ai_recommended_category v = None \<longrightarrow>
            CategoryUndetermined_reason a (ai_recommended_subpoint v) \<in> set (review_reasons v))
       \<and> (db_failure db = None \<longrightarrow>
            ai_recommended_category v =
              (case find (\<lambda>d. pd_article d = a
                               \<and> subpoint_clause (ai_recommended_subpoint v) (pd_subpoint d))
                      (points_diagnoses db) of
                 None \<Rightarrow> None
               | Some d \<Rightarrow> pd_graph d (graph r)))
       \<and> (ai_recommended_subpoint v = None \<or> ai_recommended_subpoint v = Some [] \<longrightarrow>
            (\<forall>s. subpoint_clause (ai_recommended_subpoint v) s
                   = (s = None \<or> s = Some [] \<or> s = Some str_null)))"
proof -
  from verdict_stage_2[OF assms(2)] obtain cres rs where
    s2: "stage_2 ai db (is_healthy v) (ai_recommended_article v) (ai_recommended_subpoint v) (graph r)
           = Inr (ai_recommended_category v, cres, passed (stage_2_administrative v),
                  status (stage_2_administrative v), rs)"
    and rs: "set rs \<subseteq> set (review_reasons v)"
    and ex: "s2_expected_category (details (stage_2_administrative v)) = ai_recommended_category v"
    by blast
  from s2 assms(1,3,4,5) obtain cres' where
    dc: "determine_category_spec db a (ai_recommended_subpoint v) (graph r) = Inr cres'"
    and c: "ai_recommended_category v = cat_category cres'"
    and p: "passed (stage_2_administrative v) = (cat_category cres' \<noteq> None)"
    and st: "status (stage_2_administrative v) = (if cat_category cres' \<noteq> None then SUCCESS else ERROR)"
    and r2: "rs = (if cat_category cres' = None
                   then [CategoryUndetermined_reason a (ai_recommended_subpoint v)] else [])"
    by (auto simp: stage_2_def Let_def split: sum.splits if_splits)
  have tol: "ai_recommended_subpoint v = None \<or> ai_recommended_subpoint v = Some [] \<longrightarrow>
            (\<forall>s. subpoint_clause (ai_recommended_subpoint v) s
                   = (s = None \<or> s = Some [] \<or> s = Some str_null))"
    by (auto simp: subpoint_clause_def subpoint_absent_def)
  from determine_category_spec_eq[OF dc] c p st r2 rs ex tol show ?thesis
    by auto
qed

text \<open>The classifier answers article 88 with the empty string as subpoint; the row of
  Appendix 1 for article 88 is stored with a NULL subpoint. The lookup finds it, and
  the stage passes with category V.\<close>

theorem stage_2_witness:
  "determine_category analyzer_88 = determine_category_spec
   \<and> pd_subpoint diagnosis_row_88 = None
   \<and> (\<exists>v. full_validation_with_contradiction_check checker0 analyzer_88 world_down clock0 exam_88 = Inr v
        \<and> \<not> is_healthy v \<and> ai_recommended_article v = Some 88
        \<and> ai_recommended_subpoint v = Some []
        \<and> ai_recommended_category v = Some [1042]
        \<and> passed (stage_2_administrative v) \<and> status (stage_2_administrative v) = SUCCESS)"
proof -
  obtain cres where s2: "stage_2 analyzer_88 world_down False (Some 88) (Some []) 1
      = Inr (Some [1042], cres, True, SUCCESS, [])"
    using stage_2_down(2) by blast
  have "\<exists>v. full_validation_with_contradiction_check checker0 analyzer_88 world_down clock0 exam_88 = Inr v
        \<and> \<not> is_healthy v \<and> ai_recommended_article v = Some 88
        \<and> ai_recommended_subpoint v = Some []
        \<and> ai_recommended_category v = Some [1042]"
    by (simp add: full_validation_with_contradiction_check_def Let_def findings_down
          exam_more_fields analyzer_88_answers clinical0_def s2
          get_is_healthy_def get_confidence_def
          determine_category_match_status_def normalized_V
          calculate_overall_status_def match_reasons_def)
  then obtain v where
    v: "full_validation_with_contradiction_check checker0 analyzer_88 world_down clock0 exam_88 = Inr v"
       "\<not> is_healthy v" "ai_recommended_article v = Some 88"
       "ai_recommended_subpoint v = Some []" "ai_recommended_category v = Some [1042]"
    by blast
  from stage_2_resolves_the_category[OF analyzer_88_answers(2) v(1) v(2) v(3)] v
  show ?thesis
    by (auto simp: analyzer_88_answers diagnosis_row_88_def)
qed

text \<open>The other lookup of the validator, \<^verbatim>\<open>get_category_for_article_subpoint\<close>,
  compares the subpoint as it is given: asked with the empty string it misses the row
  that is stored with NULL, asked with \<^verbatim>\<open>None\<close> it finds it.\<close>

lemma exact_lookup_example:
  "get_category_for_article_subpoint world0 88 (Some []) 1 = None
   \<and> get_category_for_article_subpoint world0 88 None 1 = Some [1042]"
  by (simp add: get_category_for_article_subpoint_def world0_def diagnosis_row_88_def
        diagnosis_row_2_1_def pd_graph_def)

section \<open>Failures and the verdict\<close>

text \<open>
  Claim C2, as the code has it. Over a store whose distances are not negative, and
  whatever the embedding capability and the session do during Stage 0 (a failure
  there is absorbed as an empty retrieval and reported nowhere): whenever the
  classifier of Stage 1 returns with a confidence in [0, 1] and the resolver of
  Stage 2 does not raise, the full validation returns a verdict and the route returns
  it; the status of Stage 1 is SUCCESS or WARNING, never ERROR; the status of Stage 2
  is ERROR exactly when the record is not healthy, an article was given and no
  category was found; no stage carries an error message. When the classifier or the
  resolver raises, the exception is not caught by the validation: no verdict is
  produced, and the route answers with the HTTP status 500.
\<close>

theorem verdict_unless_the_analyzer_raises:
  assumes "retrieval_sane db"
  shows "(\<forall>cl. determine_subpoint ai db (analysis_text r) (specialty r) (icd10_codes r)
                (article_hint r) (anamnesis r) (complaints r) (special_research_results r) = Inr cl
              \<and> 0 \<le> get_confidence cl \<and> get_confidence cl \<le> 1
              \<and> (\<forall>a. \<not> isl (determine_category ai db a (cr_subpoint cl) (graph r))) \<longrightarrow>
           (\<exists>v. full_validation_with_contradiction_check checker ai db clock r = Inr v
               \<and> check_doctor_conclusion checker ai db clock r = Inr v
               \<and> status (stage_1_clinical v)
                   = (if get_confidence cl \<ge> 1 / 2 \<or> get_is_healthy cl then SUCCESS else STAGE_WARNING)
               \<and> (status (stage_2_administrative v) = ERROR \<longleftrightarrow>
                    \<not> get_is_healthy cl \<and> (\<exists>a. cr_article cl = Some a \<and> a \<noteq> 0)
                    \<and> ai_recommended_category v = None)
               \<and> stage_error_message (stage_1_clinical v) = None
               \<and> stage_error_message (stage_2_administrative v) = None))
       \<and> (\<forall>e. determine_subpoint ai db (analysis_text r) (specialty r) (icd10_codes r)
                (article_hint r) (anamnesis r) (complaints r) (special_research_results r) = Inl e \<longrightarrow>
             full_validation_with_contradiction_check checker ai db clock r = Inl e
             \<and> check_doctor_conclusion checker ai db clock r = Inl (HTTPException 500))
       \<and> (\<forall>cl a e. determine_subpoint ai db (analysis_text r) (specialty r) (icd10_codes r)
                (article_hint r) (anamnesis r) (complaints r) (special_research_results r) = Inr cl
              \<and> \<not> get_is_healthy cl \<and> cr_article cl = Some a \<and> a \<noteq> 0
              \<and> determine_category ai db a (cr_subpoint cl) (graph r) = Inl e \<longrightarrow>
             full_validation_with_contradiction_check checker ai db clock r = Inl e
             \<and> check_doctor_conclusion checker ai db clock r = Inl (HTTPException 500))"
proof -
  from stage_0_converts[OF assms] obtain ds
    where ds: "convert_contradictions (check_for_contradictions checker db r) = Inr ds" by blast
  have a: "\<exists>v. full_validation_with_contradiction_check checker ai db clock r = Inr v
               \<and> check_doctor_conclusion checker ai db clock r = Inr v
               \<and> status (stage_1_clinical v)
                   = (if get_confidence cl \<ge> 1 / 2 \<or> get_is_healthy cl then SUCCESS else STAGE_WARNING)
               \<and> (status (stage_2_administrative v) = ERROR \<longleftrightarrow>
                    \<not> get_is_healthy cl \<and> (\<exists>a. cr_article cl = Some a \<and> a \<noteq> 0)
                    \<and> ai_recommended_category v = None)
               \<and> stage_error_message (stage_1_clinical v) = None
               \<and> stage_error_message (stage_2_administrative v) = None"
    if cl: "determine_subpoint ai db (analysis_text r) (specialty r) (icd10_codes r)
                (article_hint r) (anamnesis r) (complaints r) (special_research_results r) = Inr cl"
      and c0: "0 \<le> get_confidence cl" and c1: "get_confidence cl \<le> 1"
      and dc: "\<forall>a. \<not> isl (determine_category ai db a (cr_subpoint cl) (graph r))"
    for cl
  proof -
    from stage_2_returns[OF dc] obtain x
      where x: "stage_2 ai db (get_is_healthy cl) (cr_article cl) (cr_subpoint cl) (graph r) = Inr x"
      by blast
    from fv_returns[OF ds cl x c0 c1] obtain v
      where v: "full_validation_with_contradiction_check checker ai db clock r = Inr v" by blast
    from verdict_stage_2[OF v] cl obtain cres rs where
      f: "is_healthy v = get_is_healthy cl" "ai_recommended_article v = cr_article cl"
         "ai_recommended_subpoint v = cr_subpoint cl" "ai_confidence v = get_confidence cl"
      and s2: "stage_2 ai db (is_healthy v) (ai_recommended_article v) (ai_recommended_subpoint v) (graph r)
           = Inr (ai_recommended_category v, cres, passed (stage_2_administrative v),
                  status (stage_2_administrative v), rs)"
      and em: "stage_error_message (stage_2_administrative v) = None"
      by auto
    from s2 have e: "status (stage_2_administrative v) = ERROR \<longleftrightarrow>
                    \<not> is_healthy v \<and> (\<exists>a. ai_recommended_article v = Some a \<and> a \<noteq> 0)
                    \<and> ai_recommended_category v = None"
      by (auto simp: stage_2_def Let_def split: if_splits option.splits sum.splits)
    from v have "check_doctor_conclusion checker ai db clock r = Inr v"
      by (simp add: check_doctor_conclusion_def)
    with v verdict_stage_1[OF v] e em f show ?thesis by auto
  qed
  have b: "full_validation_with_contradiction_check checker ai db clock r = Inl e
             \<and> check_doctor_conclusion checker ai db clock r = Inl (HTTPException 500)"
    if "determine_subpoint ai db (analysis_text r) (specialty r) (icd10_codes r)
                (article_hint r) (anamnesis r) (complaints r) (special_research_results r) = Inl e"
    for e
    using fv_raises_stage_1[OF ds that] by (simp add: check_doctor_conclusion_def)
  have c: "full_validation_with_contradiction_check checker ai db clock r = Inl e
             \<and> check_doctor_conclusion checker ai db clock r = Inl (HTTPException 500)"
    if "determine_subpoint ai db (analysis_text r) (specialty r) (icd10_codes r)
                (article_hint r) (anamnesis r) (complaints r) (special_research_results r) = Inr cl"
       "\<not> get_is_healthy cl" "cr_article cl = Some a" "a \<noteq> 0"
       "determine_category ai db a (cr_subpoint cl) (graph r) = Inl e"
    for cl a e
    using fv_raises_stage_2[OF ds that] by (simp add: check_doctor_conclusion_def)
  from a b c show ?thesis by blast
qed

text \<open>Where the claim as stated fails. The embedding capability is down while Stage 0
  retrieves for the diagnosis: the verdict is VALID with risk LOW, no review reason,
  no ERROR status and no error message. And when the classifier raises, the
  validation raises and the route answers 500.\<close>

theorem silent_failure_counterexample:
  "create_embedding world_down (diagnosis_text exam_tb_E) = Inl EmbeddingError
   \<and> 10 \<le> length (py_strip (diagnosis_text exam_tb_E))
   \<and> \<not> is_healthy_text checker0 (diagnosis_text exam_tb_E)
   \<and> (case full_validation_with_contradiction_check checker0 analyzer0 world_down clock0 exam_tb_E of
         Inl e \<Rightarrow> False
       | Inr v \<Rightarrow>
           overall_status v = VALID \<and> risk_level v = LOW \<and> review_reasons v = []
           \<and> \<not> should_review v
           \<and> status (stage_1_clinical v) = SUCCESS \<and> status (stage_2_administrative v) = SUCCESS
           \<and> stage_error_message (stage_1_clinical v) = None
           \<and> stage_error_message (stage_2_administrative v) = None)
   \<and> full_validation_with_contradiction_check checker0 analyzer_down world0 clock0 exam_tb_E
       = Inl CompletionError
   \<and> check_doctor_conclusion checker0 analyzer_down world0 clock0 exam_tb_E
       = Inl (HTTPException 500)"
proof -
  from verdict_down_tb_E obtain v where
    v: "full_validation_with_contradiction_check checker0 analyzer0 world_down clock0 exam_tb_E = Inr v"
       "overall_status v = VALID \<and> risk_level v = LOW \<and> review_reasons v = []
           \<and> \<not> should_review v
           \<and> status (stage_1_clinical v) = SUCCESS \<and> status (stage_2_administrative v) = SUCCESS
           \<and> stage_error_message (stage_1_clinical v) = None
           \<and> stage_error_message (stage_2_administrative v) = None"
    by blast
  have "retrieval_sane world0"
    by (simp add: retrieval_sane_def world0_embedding world0_nonneg)
  from stage_0_converts[OF this] obtain ds
    where "convert_contradictions (check_for_contradictions checker0 world0 exam_tb_E) = Inr ds"
    by blast
  from fv_raises_stage_1[OF this analyzer_down_answers]
  have d: "full_validation_with_contradiction_check checker0 analyzer_down world0 clock0 exam_tb_E
       = Inl CompletionError" .
  then have "check_doctor_conclusion checker0 analyzer_down world0 clock0 exam_tb_E
       = Inl (HTTPException 500)"
    by (simp add: check_doctor_conclusion_def)
  with v d show ?thesis
    by (simp add: world_down_fails exam_fields text_tb_long not_healthy_tb)
qed

text \<open>With the embedding capability down and an analyzer that answers, the verdict is
  returned; with a classifier that raises, the route answers 500.\<close>

theorem verdict_witness:
  "retrieval_sane world_down
   \<and> (\<exists>v. full_validation_with_contradiction_check checker0 analyzer0 world_down clock0 exam_tb_E = Inr v
          \<and> check_doctor_conclusion checker0 analyzer0 world_down clock0 exam_tb_E = Inr v
          \<and> status (stage_1_clinical v) = SUCCESS
          \<and> status (stage_2_administrative v) \<noteq> ERROR)
   \<and> check_doctor_conclusion checker0 analyzer_down world_down clock0 exam_tb_E
       = Inl (HTTPException 500)"
proof -
  have dc: "\<forall>a. \<not> isl (determine_category analyzer0 world_down a (cr_subpoint clinical0) (graph exam_tb_E))"
    by (simp add: analyzer0_answers determine_category_spec_def Let_def)
  from verdict_down_tb_E obtain w where
    w: "full_validation_with_contradiction_check checker0 analyzer0 world_down clock0 exam_tb_E = Inr w"
       "status (stage_2_administrative w) = SUCCESS" by blast
  note t = verdict_unless_the_analyzer_raises[OF world_down_sane,
      where ai = analyzer0 and r = exam_tb_E and checker = checker0 and clock = clock0]
  from t have "\<exists>v. full_validation_with_contradiction_check checker0 analyzer0 world_down clock0 exam_tb_E = Inr v
          \<and> check_doctor_conclusion checker0 analyzer0 world_down clock0 exam_tb_E = Inr v
          \<and> status (stage_1_clinical v) = SUCCESS"
    using dc by (simp add: analyzer0_answers clinical0_fields) blast
  with w have a: "\<exists>v. full_validation_with_contradiction_check checker0 analyzer0 world_down clock0 exam_tb_E = Inr v
          \<and> check_doctor_conclusion checker0 analyzer0 world_down clock0 exam_tb_E = Inr v
          \<and> status (stage_1_clinical v) = SUCCESS
          \<and> status (stage_2_administrative v) \<noteq> ERROR"
    by auto
  from verdict_unless_the_analyzer_raises[OF world_down_sane,
      where ai = analyzer_down and r = exam_tb_E and checker = checker0 and clock = clock0]
  have "check_doctor_conclusion checker0 analyzer_down world_down clock0 exam_tb_E
       = Inl (HTTPException 500)"
    by (simp add: analyzer_down_answers)
  with a world_down_sane show ?thesis by blast
qed

end
